theory Spec2Isabelle
  imports Complex_Main "HOL-Library.AList"
begin

section \<open>Floating-point values\<close>

text \<open>
  The core of the repository is \<^verbatim>\<open>functions/functions.py\<close>: three static methods of the
  class \<^verbatim>\<open>Functions\<close> over pandas data frames whose cells are float64 values, as the data
  model of the specification has them. A float64 value is NaN or an extended real: a
  finite number, plus infinity or minus infinity. NaN is \<open>None\<close>.
\<close>

datatype xreal = MInf | Fin real | PInf

instantiation xreal :: linorder
begin

fun less_eq_xreal :: "xreal \<Rightarrow> xreal \<Rightarrow> bool" where
  "less_eq_xreal MInf _ = True"
| "less_eq_xreal (Fin a) MInf = False"
| "less_eq_xreal (Fin a) (Fin b) = (a \<le> b)"
| "less_eq_xreal (Fin a) PInf = True"
| "less_eq_xreal PInf PInf = True"
| "less_eq_xreal PInf _ = False"

definition less_xreal :: "xreal \<Rightarrow> xreal \<Rightarrow> bool" where
  "less_xreal a b = (a \<le> b \<and> \<not> b \<le> a)"

instance
proof
  fix x y z :: xreal
  show "(x < y) = (x \<le> y \<and> \<not> y \<le> x)" by (simp add: less_xreal_def)
  show "x \<le> x" by (cases x) simp_all
  show "x \<le> y \<Longrightarrow> y \<le> z \<Longrightarrow> x \<le> z" by (cases x; cases y; cases z) simp_all
  show "x \<le> y \<Longrightarrow> y \<le> x \<Longrightarrow> x = y" by (cases x; cases y) simp_all
  show "x \<le> y \<or> y \<le> x" by (cases x; cases y) auto
qed

end

type_synonym float64 = "xreal option"

abbreviation NaN :: float64 where
  "NaN \<equiv> None"

abbreviation num :: "real \<Rightarrow> float64" where
  "num r \<equiv> Some (Fin r)"

text \<open>
  Comparisons of floats are exact, and every comparison with NaN is false:
  \<^verbatim>\<open>a < b\<close>, \<^verbatim>\<open>a >= b\<close>, \<^verbatim>\<open>a > b\<close> and \<^verbatim>\<open>a == b\<close>.
\<close>

fun flt :: "float64 \<Rightarrow> float64 \<Rightarrow> bool" where
  "flt (Some u) (Some v) = (u < v)"
| "flt _ _ = False"

fun fge :: "float64 \<Rightarrow> float64 \<Rightarrow> bool" where
  "fge (Some u) (Some v) = (u \<ge> v)"
| "fge _ _ = False"

fun fgt :: "float64 \<Rightarrow> float64 \<Rightarrow> bool" where
  "fgt (Some u) (Some v) = (u > v)"
| "fgt _ _ = False"

fun feq :: "float64 \<Rightarrow> float64 \<Rightarrow> bool" where
  "feq (Some u) (Some v) = (u = v)"
| "feq _ _ = False"

text \<open>
  Arithmetic on floats rounds, and how numpy rounds and in which order it adds up an array
  is not part of the repository. The arithmetic is therefore a parameter of the model: the
  four operations the code uses, on operands that are not NaN. \<open>fl_sub u v\<close> is
  \<^verbatim>\<open>u - v\<close>, \<open>fl_square u\<close> is \<^verbatim>\<open>u ** 2\<close>, \<open>fl_sum\<close> is \<^verbatim>\<open>.sum()\<close> of an array and
  \<open>fl_mul_sqrt2 u\<close> is \<^verbatim>\<open>u * np.sqrt(2)\<close>. Every theorem below holds for every such record,
  so for the arithmetic of float64 in particular.
\<close>

record arith =
  fl_sub :: "xreal \<Rightarrow> xreal \<Rightarrow> float64"
  fl_square :: "xreal \<Rightarrow> float64"
  fl_sum :: "float64 list \<Rightarrow> float64"
  fl_mul_sqrt2 :: "xreal \<Rightarrow> float64"

text \<open>An operation with a NaN operand gives NaN, whatever the rounding.\<close>

fun fsub :: "arith \<Rightarrow> float64 \<Rightarrow> float64 \<Rightarrow> float64" where
  "fsub fa (Some u) (Some v) = fl_sub fa u v"
| "fsub fa _ _ = NaN"

fun fsquare :: "arith \<Rightarrow> float64 \<Rightarrow> float64" where
  "fsquare fa (Some u) = fl_square fa u"
| "fsquare fa None = NaN"

fun fmul_sqrt2 :: "arith \<Rightarrow> float64 \<Rightarrow> float64" where
  "fmul_sqrt2 fa (Some u) = fl_mul_sqrt2 fa u"
| "fmul_sqrt2 fa None = NaN"

text \<open>\<^verbatim>\<open>np.abs\<close> clears the sign and does not round.\<close>

fun fabs :: "float64 \<Rightarrow> float64" where
  "fabs (Some (Fin u)) = num \<bar>u\<bar>"
| "fabs (Some MInf) = Some PInf"
| "fabs (Some PInf) = Some PInf"
| "fabs None = NaN"

subsection \<open>An arithmetic to compute with\<close>

text \<open>
  The arithmetic used to evaluate the model on concrete tables: the exact result, and an
  infinity when the exact result reaches \<open>2 ^ 1024\<close> in magnitude. It agrees with float64
  arithmetic wherever the exact result is itself a float64 value or overflows. The tables
  evaluated below are made of such values, with one exception: Scenarios A and B of the
  specification are given in decimals (0.1, 0.05), which float64 only approximates. They
  are evaluated as written, and once more with binary fractions in their place, where
  every operation of the code is exact in float64. \<open>np_sqrt2\<close> is the float64 value of \<^verbatim>\<open>np.sqrt(2)\<close>,
  1.4142135623730951.
\<close>

definition overflow :: "real \<Rightarrow> float64" where
  "overflow r = (if r \<ge> 2 ^ 1024 then Some PInf else if r \<le> - (2 ^ 1024) then Some MInf else num r)"

definition np_sqrt2 :: real where
  "np_sqrt2 = 6369051672525773 / 4503599627370496"

fun unrounded_sub :: "xreal \<Rightarrow> xreal \<Rightarrow> float64" where
  "unrounded_sub (Fin a) (Fin b) = overflow (a - b)"
| "unrounded_sub PInf PInf = NaN"
| "unrounded_sub MInf MInf = NaN"
| "unrounded_sub PInf _ = Some PInf"
| "unrounded_sub MInf _ = Some MInf"
| "unrounded_sub (Fin a) PInf = Some MInf"
| "unrounded_sub (Fin a) MInf = Some PInf"

fun unrounded_add :: "float64 \<Rightarrow> float64 \<Rightarrow> float64" where
  "unrounded_add (Some (Fin a)) (Some (Fin b)) = overflow (a + b)"
| "unrounded_add None _ = NaN"
| "unrounded_add _ None = NaN"
| "unrounded_add (Some PInf) (Some MInf) = NaN"
| "unrounded_add (Some MInf) (Some PInf) = NaN"
| "unrounded_add (Some PInf) _ = Some PInf"
| "unrounded_add (Some MInf) _ = Some MInf"
| "unrounded_add _ (Some PInf) = Some PInf"
| "unrounded_add _ (Some MInf) = Some MInf"

fun unrounded_square :: "xreal \<Rightarrow> float64" where
  "unrounded_square (Fin a) = overflow (a * a)"
| "unrounded_square _ = Some PInf"

fun unrounded_mul_sqrt2 :: "xreal \<Rightarrow> float64" where
  "unrounded_mul_sqrt2 (Fin a) = overflow (a * np_sqrt2)"
| "unrounded_mul_sqrt2 PInf = Some PInf"
| "unrounded_mul_sqrt2 MInf = Some MInf"

definition unrounded :: arith where
  "unrounded = \<lparr>fl_sub = unrounded_sub, fl_square = unrounded_square,
                 fl_sum = (\<lambda>xs. fold (\<lambda>v acc. unrounded_add acc v) xs (num 0)),
                 fl_mul_sqrt2 = unrounded_mul_sqrt2\<rparr>"

section \<open>Data frames\<close>

text \<open>
  A data frame is modelled as the ordered list of its named columns (read\_csv delivers
  distinct column names); every column of one frame has the same number of rows.
\<close>

datatype error = KeyError | NameError | ValueError | IndexError

type_synonym dataframe = "(string \<times> float64 list) list"

definition columns :: "dataframe \<Rightarrow> string list" where
  "columns df = map fst df"

definition nrows :: "dataframe \<Rightarrow> nat" where
  "nrows df = (case df of [] \<Rightarrow> 0 | c # _ \<Rightarrow> length (snd c))"

text \<open>The invariant of a data frame: all columns have the same length.\<close>

definition wf_dataframe :: "dataframe \<Rightarrow> bool" where
  "wf_dataframe df = list_all (\<lambda>c. length (snd c) = nrows df) df"

text \<open>\<^verbatim>\<open>df[name]\<close>: the column, or KeyError.\<close>

definition getitem :: "dataframe \<Rightarrow> string \<Rightarrow> error + float64 list" where
  "getitem df name = (case map_of df name of None \<Rightarrow> Inl KeyError | Some v \<Rightarrow> Inr v)"

text \<open>\<^verbatim>\<open>df.set_index(name)\<close>: the column leaves the columns and becomes the index
  (which the code never reads again); KeyError when there is no such column.\<close>

definition set_index :: "string \<Rightarrow> dataframe \<Rightarrow> error + dataframe" where
  "set_index name df =
     (if name \<in> set (columns df) then Inr (filter (\<lambda>c. fst c \<noteq> name) df) else Inl KeyError)"

section \<open>map\_training\_to\_ideal\_functions\<close>

text \<open>
  \<^verbatim>\<open>train_values - ideal_values\<close> on two one-dimensional numpy arrays: elementwise when
  the lengths agree, broadcast when one of them has length 1, ValueError otherwise.
\<close>

definition np_sub :: "arith \<Rightarrow> float64 list \<Rightarrow> float64 list \<Rightarrow> error + float64 list" where
  "np_sub fa a b =
     (if length a = length b then Inr (map (\<lambda>(u, v). fsub fa u v) (zip a b))
      else if length b = 1 then Inr (map (\<lambda>u. fsub fa u (hd b)) a)
      else if length a = 1 then Inr (map (\<lambda>v. fsub fa (hd a) v) b)
      else Inl ValueError)"

text \<open>\<^verbatim>\<open>((train_values - ideal_values) ** 2).sum()\<close>\<close>

definition squared_diff :: "arith \<Rightarrow> float64 list \<Rightarrow> float64 list \<Rightarrow> error + float64" where
  "squared_diff fa train_values ideal_values =
     (case np_sub fa train_values ideal_values of
        Inl e \<Rightarrow> Inl e
      | Inr d \<Rightarrow> Inr (fl_sum fa (map (fsquare fa) d)))"

text \<open>
  The inner loop over \<^verbatim>\<open>aligned_ideal_functions.columns\<close>, with the state
  (best\_fit\_function, best\_fit\_deviation). The handler of the column lookup is
  \<^verbatim>\<open>raise KeyError(...) from err\<close>, and \<^verbatim>\<open>err\<close> is not defined anywhere in the module, so
  that handler ends in NameError; the handler of the subtraction raises ValueError.
\<close>

fun ideal_loop :: "arith \<Rightarrow> float64 list \<Rightarrow> dataframe \<Rightarrow> string list \<Rightarrow> string option \<times> float64
    \<Rightarrow> error + (string option \<times> float64)" where
  "ideal_loop fa train_values aligned_ideal [] st = Inr st"
| "ideal_loop fa train_values aligned_ideal (ideal_column # rest) (best_fit_function, best_fit_deviation) =
     (case getitem aligned_ideal ideal_column of
        Inl _ \<Rightarrow> Inl NameError
      | Inr ideal_values \<Rightarrow>
          (case squared_diff fa train_values ideal_values of
             Inl _ \<Rightarrow> Inl ValueError
           | Inr sq \<Rightarrow>
               if flt sq best_fit_deviation
               then ideal_loop fa train_values aligned_ideal rest (Some ideal_column, sq)
               else ideal_loop fa train_values aligned_ideal rest (best_fit_function, best_fit_deviation)))"

text \<open>The outer loop over \<^verbatim>\<open>training_columns\<close>; a row of the mappings frame is a pair
  (TrainingData, IdealFunction), the latter \<open>None\<close> when no candidate was chosen.
  \<^verbatim>\<open>best_fit_deviation\<close> starts as \<^verbatim>\<open>float("inf")\<close>.\<close>

type_synonym mappings = "(string \<times> string option) list"

fun train_loop :: "arith \<Rightarrow> dataframe \<Rightarrow> dataframe \<Rightarrow> string list \<Rightarrow> mappings \<Rightarrow> error + mappings" where
  "train_loop fa aligned_training aligned_ideal [] ms = Inr ms"
| "train_loop fa aligned_training aligned_ideal (train_column # rest) ms =
     (case getitem aligned_training train_column of
        Inl _ \<Rightarrow> Inl KeyError
      | Inr train_values \<Rightarrow>
          (case ideal_loop fa train_values aligned_ideal (columns aligned_ideal) (None, Some PInf) of
             Inl e \<Rightarrow> Inl e
           | Inr st \<Rightarrow>
               train_loop fa aligned_training aligned_ideal rest (ms @ [(train_column, fst st)])))"

text \<open>\<^verbatim>\<open>training_data.columns[1:]\<close>: every column but the first, whatever its name.\<close>

definition training_columns :: "dataframe \<Rightarrow> string list" where
  "training_columns training_data = drop 1 (columns training_data)"

definition map_training_to_ideal_functions :: "arith \<Rightarrow> dataframe \<Rightarrow> dataframe \<Rightarrow> error + mappings" where
  "map_training_to_ideal_functions fa training_data ideal_functions =
     (case set_index ''x'' training_data of
        Inl _ \<Rightarrow> Inl NameError
      | Inr aligned_training \<Rightarrow>
          (case set_index ''x'' ideal_functions of
             Inl _ \<Rightarrow> Inl NameError
           | Inr aligned_ideal \<Rightarrow>
               train_loop fa aligned_training aligned_ideal (training_columns training_data) []))"

section \<open>create\_mapped\_dataframes\<close>

text \<open>
  A mapped data frame has the four columns x, y\_ideal, y\_train and y\_diff. The frame
  starts empty, and a frame without rows takes its index from the first non-empty series
  assigned to it: that is \<^verbatim>\<open>training_data["x"]\<close> as soon as the training table has a row.
  Every column is aligned to that index by pandas: a series with fewer rows is padded with
  NaN, one with more rows is cut. Both input frames carry the default index 0, 1, 2, ...
  of read\_csv.
\<close>

record mapped_dataframe =
  col_x :: "float64 list"
  col_y_ideal :: "float64 list"
  col_y_train :: "float64 list"
  col_y_diff :: "float64 list"

definition reindex :: "nat \<Rightarrow> float64 list \<Rightarrow> float64 list" where
  "reindex n col = map (\<lambda>i. if i < length col then col ! i else NaN) [0..<n]"

definition build_mapped_dataframe :: "arith \<Rightarrow> float64 list \<Rightarrow> float64 list \<Rightarrow> float64 list
    \<Rightarrow> mapped_dataframe" where
  "build_mapped_dataframe fa xs ideal_values train_values =
     (let n = (if xs \<noteq> [] then length xs
               else if ideal_values \<noteq> [] then length ideal_values
               else length train_values);
          yi = reindex n ideal_values;
          yt = reindex n train_values
      in \<lparr>col_x = reindex n xs, col_y_ideal = yi, col_y_train = yt,
          col_y_diff = map (\<lambda>(a, b). fsub fa a b) (zip yi yt)\<rparr>)"

text \<open>
  The result is a Python dict: it keeps insertion order, and storing under a key that
  is already there replaces the value in place. That is \<open>AList.update\<close>.
\<close>

type_synonym mapped_dataframes = "(string \<times> mapped_dataframe) list"

fun create_loop :: "arith \<Rightarrow> mappings \<Rightarrow> dataframe \<Rightarrow> dataframe \<Rightarrow> mapped_dataframes
    \<Rightarrow> error + mapped_dataframes" where
  "create_loop fa [] ideal_functions training_data md = Inr md"
| "create_loop fa ((training_data_column, ideal_function_column) # rest) ideal_functions training_data md =
     (case ideal_function_column of
        None \<Rightarrow> create_loop fa rest ideal_functions training_data md
      | Some name \<Rightarrow>
          if name \<notin> set (columns ideal_functions)
          then create_loop fa rest ideal_functions training_data md
          else
            (case getitem training_data ''x'' of
               Inl _ \<Rightarrow> Inl KeyError
             | Inr xs \<Rightarrow>
                 (case getitem ideal_functions name of
                    Inl _ \<Rightarrow> Inl KeyError
                  | Inr ideal_values \<Rightarrow>
                      (case getitem training_data training_data_column of
                         Inl _ \<Rightarrow> Inl KeyError
                       | Inr train_values \<Rightarrow>
                           create_loop fa rest ideal_functions training_data
                             (AList.update name
                                (build_mapped_dataframe fa xs ideal_values train_values) md)))))"

definition create_mapped_dataframes :: "arith \<Rightarrow> mappings \<Rightarrow> dataframe \<Rightarrow> dataframe
    \<Rightarrow> error + mapped_dataframes" where
  "create_mapped_dataframes fa ms ideal_functions training_data =
     create_loop fa ms ideal_functions training_data []"

section \<open>map\_test\_data\<close>

text \<open>\<^verbatim>\<open>dataframe["y_diff"].max()\<close>: pandas skips NaN; the maximum of no value is NaN.\<close>

fun dropna :: "float64 list \<Rightarrow> xreal list" where
  "dropna [] = []"
| "dropna (None # vs) = dropna vs"
| "dropna (Some v # vs) = v # dropna vs"

definition series_max :: "float64 list \<Rightarrow> float64" where
  "series_max col = (case dropna col of [] \<Rightarrow> NaN | v # vs \<Rightarrow> Some (fold max vs v))"

text \<open>\<^verbatim>\<open>dataframe.loc[dataframe["x"] == x_value, "y_ideal"].values\<close>: the y\_ideal cells of
  the rows whose x equals the test point's x, in row order.\<close>

definition loc_y_ideal :: "mapped_dataframe \<Rightarrow> float64 \<Rightarrow> float64 list" where
  "loc_y_ideal df x_value =
     map snd (filter (\<lambda>r. feq (fst r) x_value) (zip (col_x df) (col_y_ideal df)))"

text \<open>\<^verbatim>\<open>.values[0]\<close>: IndexError on an empty array.\<close>

fun values0 :: "'a list \<Rightarrow> error + 'a" where
  "values0 [] = Inl IndexError"
| "values0 (v # _) = Inr v"

definition deviation_train :: "mapped_dataframe \<Rightarrow> float64" where
  "deviation_train df = series_max (col_y_diff df)"

definition deviation_test :: "arith \<Rightarrow> mapped_dataframe \<Rightarrow> float64 \<Rightarrow> float64 \<Rightarrow> error + float64" where
  "deviation_test fa df x_value y_value =
     (case values0 (loc_y_ideal df x_value) of
        Inl e \<Rightarrow> Inl e
      | Inr y_ideal \<Rightarrow> Inr (fabs (fsub fa y_value y_ideal)))"

text \<open>The state of the loop over the profiles of one test point.\<close>

record fit_state =
  existing_max_deviation :: float64
  best_fit_function :: "string option"
  best_fit_deviation :: float64

definition initial_fit :: fit_state where
  "initial_fit = \<lparr>existing_max_deviation = NaN, best_fit_function = None,
                  best_fit_deviation = NaN\<rparr>"

fun profile_loop :: "arith \<Rightarrow> float64 \<Rightarrow> float64 \<Rightarrow> mapped_dataframes \<Rightarrow> fit_state
    \<Rightarrow> error + fit_state" where
  "profile_loop fa x_value y_value [] st = Inr st"
| "profile_loop fa x_value y_value ((function_name, df) # rest) st =
     (case deviation_test fa df x_value y_value of
        Inl e \<Rightarrow> Inl e
      | Inr dev_test \<Rightarrow>
          if fge (deviation_train df) (fmul_sqrt2 fa dev_test)
          then
            if existing_max_deviation st = NaN \<or> fgt dev_test (existing_max_deviation st)
            then profile_loop fa x_value y_value rest
                   \<lparr>existing_max_deviation = dev_test, best_fit_function = Some function_name,
                    best_fit_deviation = deviation_train df\<rparr>
            else profile_loop fa x_value y_value rest st
          else profile_loop fa x_value y_value rest st)"

text \<open>A row of the result: x, y, Deviation, IdealFunction.\<close>

type_synonym test_row = "float64 \<times> float64 \<times> float64 \<times> string option"

fun test_loop :: "arith \<Rightarrow> (float64 \<times> float64) list \<Rightarrow> mapped_dataframes \<Rightarrow> test_row list
    \<Rightarrow> error + test_row list" where
  "test_loop fa [] mds out = Inr out"
| "test_loop fa ((x_value, y_value) # rest) mds out =
     (case profile_loop fa x_value y_value mds initial_fit of
        Inl e \<Rightarrow> Inl e
      | Inr st \<Rightarrow>
          test_loop fa rest mds
            (out @ [(x_value, y_value, best_fit_deviation st, best_fit_function st)]))"

definition map_test_data :: "arith \<Rightarrow> (float64 \<times> float64) list \<Rightarrow> mapped_dataframes
    \<Rightarrow> error + test_row list" where
  "map_test_data fa test_data mds = test_loop fa test_data mds []"

section \<open>Specification-side notions\<close>

text \<open>
  The candidate series of a table: its columns other than x, in column order.
\<close>

definition candidates :: "dataframe \<Rightarrow> dataframe" where
  "candidates ideal_functions = filter (\<lambda>c. fst c \<noteq> ''x'') ideal_functions"

text \<open>
  \<open>first_least g cs r\<close>: \<open>r\<close> is the first element of \<open>cs\<close> at which the float \<open>g\<close> is
  least among the elements where it is not NaN, and its value is below plus infinity; or
  \<open>r\<close> is \<open>None\<close> and \<open>g\<close> is nowhere below plus infinity.
\<close>

definition first_least :: "('a \<Rightarrow> float64) \<Rightarrow> 'a list \<Rightarrow> 'a option \<Rightarrow> bool" where
  "first_least g cs r =
     (case r of
        None \<Rightarrow> (\<forall>c\<in>set cs. \<forall>s. g c = Some s \<longrightarrow> s = PInf)
      | Some c \<Rightarrow> \<exists>pre post s. cs = pre @ c # post \<and> g c = Some s \<and> s < PInf
            \<and> (\<forall>c'\<in>set cs. \<forall>s'. g c' = Some s' \<longrightarrow> s \<le> s')
            \<and> (\<forall>c'\<in>set pre. \<forall>s'. g c' = Some s' \<longrightarrow> s < s'))"

text \<open>
  The sum of squared differences of the specification, SSE(T, C), taken row by row over
  the rows of the training series and evaluated in the arithmetic of the code: each
  difference, each square and the sum are the floats that arithmetic gives.
\<close>

definition computed_sse :: "arith \<Rightarrow> float64 list \<Rightarrow> float64 list \<Rightarrow> float64" where
  "computed_sse fa T C =
     fl_sum fa (map (\<lambda>k. fsquare fa (fsub fa (T ! k) (C ! k))) [0..<length T])"

text \<open>
  The selection rule: the chosen candidate has the least computed sum of squared differences
  of all candidates whose computed value is not NaN, that value is below plus infinity, and
  every candidate before it in column order has a strictly larger one. No candidate is
  chosen only when every computed value is plus infinity or NaN.
\<close>

definition least_sse_first :: "arith \<Rightarrow> float64 list \<Rightarrow> dataframe \<Rightarrow> string option \<Rightarrow> bool" where
  "least_sse_first fa train_values cands best =
     (case best of
        None \<Rightarrow> (\<forall>c\<in>set cands. \<forall>s. computed_sse fa train_values (snd c) = Some s \<longrightarrow> s = PInf)
      | Some name \<Rightarrow>
          (\<exists>pre ideal_values post s. cands = pre @ (name, ideal_values) # post
             \<and> computed_sse fa train_values ideal_values = Some s \<and> s < PInf
             \<and> (\<forall>c\<in>set cands. \<forall>s'. computed_sse fa train_values (snd c) = Some s' \<longrightarrow> s \<le> s')
             \<and> (\<forall>c\<in>set pre. \<forall>s'. computed_sse fa train_values (snd c) = Some s' \<longrightarrow> s < s')))"

text \<open>
  A mapping row that \<open>create_mapped_dataframes\<close> does not skip: its IdealFunction is a
  column of the table of ideal functions.
\<close>

definition known_candidate :: "dataframe \<Rightarrow> string \<times> string option \<Rightarrow> bool" where
  "known_candidate ideal_functions row =
     (case snd row of None \<Rightarrow> False | Some name \<Rightarrow> name \<in> set (columns ideal_functions))"

text \<open>
  An entry of the dictionary of profiles is built from a mapping row: its key is the ideal
  function of the row and its frame is made of the x column, that ideal function and the
  training series of the row.
\<close>

definition profile_of_row :: "arith \<Rightarrow> mappings \<Rightarrow> dataframe \<Rightarrow> dataframe
    \<Rightarrow> string \<times> mapped_dataframe \<Rightarrow> bool" where
  "profile_of_row fa ms ideal_functions training_data entry =
     (\<exists>tc xs iv tv. (tc, Some (fst entry)) \<in> set ms
        \<and> getitem training_data ''x'' = Inr xs
        \<and> getitem ideal_functions (fst entry) = Inr iv
        \<and> getitem training_data tc = Inr tv
        \<and> snd entry = build_mapped_dataframe fa xs iv tv)"

text \<open>
  The invariant of a mapped data frame: its four columns have the same length.
\<close>

definition wf_mapped_dataframe :: "mapped_dataframe \<Rightarrow> bool" where
  "wf_mapped_dataframe df =
     (length (col_y_ideal df) = length (col_x df) \<and> length (col_y_train df) = length (col_x df)
      \<and> length (col_y_diff df) = length (col_x df))"

text \<open>
  The x of a test point occurs in the x column of a profile (\<^verbatim>\<open>==\<close> on floats: NaN equals
  nothing).
\<close>

definition in_domain :: "mapped_dataframe \<Rightarrow> float64 \<Rightarrow> bool" where
  "in_domain df x_value = (\<exists>c\<in>set (col_x df). feq c x_value)"

text \<open>
  The candidate's y at the x of a test point: the y\_ideal cell of the first row of the
  profile whose x equals it (\<^verbatim>\<open>==\<close> on floats: NaN equals nothing).
\<close>

definition looked_up :: "mapped_dataframe \<Rightarrow> float64 \<Rightarrow> float64 \<Rightarrow> bool" where
  "looked_up df x_value c =
     (\<exists>pre xc post. zip (col_x df) (col_y_ideal df) = pre @ (xc, c) # post
        \<and> feq xc x_value \<and> (\<forall>r\<in>set pre. \<not> feq (fst r) x_value))"

text \<open>
  The maximum of a column: a cell that is not NaN and that no other such cell exceeds.
\<close>

definition greatest_cell :: "float64 list \<Rightarrow> xreal \<Rightarrow> bool" where
  "greatest_cell col m = (Some m \<in> set col \<and> (\<forall>v. Some v \<in> set col \<longrightarrow> v \<le> m))"

text \<open>
  The acceptance rule of the classifier, with the test deviation \<open>dv\<close> it is decided on:
  the profile has a y\_ideal \<open>c\<close> at the x of the test point, \<open>dv\<close> is the computed
  distance \<open>|y - c|\<close>, the y\_diff column of the profile has a maximum \<open>tau\<close>, the computed
  product of \<open>dv\<close> and \<^verbatim>\<open>np.sqrt(2)\<close> is a number \<open>bound\<close>, and \<open>bound \<le> tau\<close>.
\<close>

definition eligible_with :: "arith \<Rightarrow> mapped_dataframe \<Rightarrow> float64 \<Rightarrow> float64 \<Rightarrow> xreal \<Rightarrow> bool" where
  "eligible_with fa df x_value y_value dv =
     (\<exists>c tau bound. looked_up df x_value c
        \<and> fabs (fsub fa y_value c) = Some dv
        \<and> greatest_cell (col_y_diff df) tau
        \<and> fl_mul_sqrt2 fa dv = Some bound
        \<and> bound \<le> tau)"

text \<open>
  The invariant of the loop over the profiles: nothing is chosen and no profile seen so far
  is eligible, or the chosen profile is the first one of largest test deviation among the
  eligible profiles seen so far, and the state holds its test and training deviations.
\<close>

definition first_max_eligible :: "arith \<Rightarrow> float64 \<Rightarrow> float64 \<Rightarrow> mapped_dataframes \<Rightarrow> fit_state \<Rightarrow> bool" where
  "first_max_eligible fa x_value y_value mds st =
     (case best_fit_function st of
        None \<Rightarrow> existing_max_deviation st = NaN \<and> best_fit_deviation st = NaN
                 \<and> (\<forall>p\<in>set mds. \<forall>dv. \<not> eligible_with fa (snd p) x_value y_value dv)
      | Some name \<Rightarrow>
          (\<exists>pre df post dv. mds = pre @ (name, df) # post
             \<and> eligible_with fa df x_value y_value dv
             \<and> existing_max_deviation st = Some dv
             \<and> best_fit_deviation st = deviation_train df
             \<and> (\<forall>p\<in>set mds. \<forall>dv'. eligible_with fa (snd p) x_value y_value dv' \<longrightarrow> dv' \<le> dv)
             \<and> (\<forall>p\<in>set pre. \<forall>dv'. eligible_with fa (snd p) x_value y_value dv' \<longrightarrow> dv' < dv)))"

text \<open>
  The assignment rule of the specification: the assigned profile is eligible, no eligible
  profile has a larger test deviation, and every eligible profile before it in the order
  of the dictionary has a strictly smaller one; nothing is assigned only when no profile
  is eligible.
\<close>

definition largest_eligible_first :: "arith \<Rightarrow> float64 \<Rightarrow> float64 \<Rightarrow> mapped_dataframes \<Rightarrow> string option \<Rightarrow> bool" where
  "largest_eligible_first fa x_value y_value mds assigned =
     (case assigned of
        None \<Rightarrow> (\<forall>p\<in>set mds. \<forall>dv. \<not> eligible_with fa (snd p) x_value y_value dv)
      | Some name \<Rightarrow>
          (\<exists>pre df post dv. mds = pre @ (name, df) # post
             \<and> eligible_with fa df x_value y_value dv
             \<and> (\<forall>p\<in>set mds. \<forall>dv'. eligible_with fa (snd p) x_value y_value dv' \<longrightarrow> dv' \<le> dv)
             \<and> (\<forall>p\<in>set pre. \<forall>dv'. eligible_with fa (snd p) x_value y_value dv' \<longrightarrow> dv' < dv)))"

text \<open>
  An output row is the classification of a test point.
\<close>

definition classified :: "arith \<Rightarrow> mapped_dataframes \<Rightarrow> float64 \<times> float64 \<Rightarrow> test_row \<Rightarrow> bool" where
  "classified fa mds t row =
     (\<exists>st. profile_loop fa (fst t) (snd t) mds initial_fit = Inr st
        \<and> row = (fst t, snd t, best_fit_deviation st, best_fit_function st))"

text \<open>
  Scenarios A and B of the specification: one training series, the candidate 0.05 below it
  at every x and a constant candidate, and the mapped data frame built from them.
\<close>

definition scenario_training :: dataframe where
  "scenario_training =
     [(''x'', [num 1, num 2, num 3, num 4, num 5]),
      (''y1'', [num (1/10), num (2/10), num (3/10), num (4/10), num (5/10)])]"

definition scenario_ideal :: dataframe where
  "scenario_ideal =
     [(''x'', [num 1, num 2, num 3, num 4, num 5]),
      (''ideal1'', [num (1/20), num (3/20), num (5/20), num (7/20), num (9/20)]),
      (''ideal2'', [num 5, num 5, num 5, num 5, num 5])]"

definition scenario_profile :: mapped_dataframe where
  "scenario_profile =
     \<lparr>col_x = [num 1, num 2, num 3, num 4, num 5],
      col_y_ideal = [num (1/20), num (3/20), num (5/20), num (7/20), num (9/20)],
      col_y_train = [num (1/10), num (2/10), num (3/10), num (4/10), num (5/10)],
      col_y_diff = [num (-1/20), num (-1/20), num (-1/20), num (-1/20), num (-1/20)]\<rparr>"

text \<open>
  The same scenario with binary fractions, all of them float64 values: the candidate is
  0.0625 below the training series at every x.
\<close>

definition binary_training :: dataframe where
  "binary_training =
     [(''x'', [num 1, num 2, num 3, num 4, num 5]),
      (''y1'', [num (2/16), num (4/16), num (6/16), num (8/16), num (10/16)])]"

definition binary_ideal :: dataframe where
  "binary_ideal =
     [(''x'', [num 1, num 2, num 3, num 4, num 5]),
      (''ideal1'', [num (1/16), num (3/16), num (5/16), num (7/16), num (9/16)]),
      (''ideal2'', [num 5, num 5, num 5, num 5, num 5])]"

definition binary_profile :: mapped_dataframe where
  "binary_profile =
     \<lparr>col_x = [num 1, num 2, num 3, num 4, num 5],
      col_y_ideal = [num (1/16), num (3/16), num (5/16), num (7/16), num (9/16)],
      col_y_train = [num (2/16), num (4/16), num (6/16), num (8/16), num (10/16)],
      col_y_diff = [num (-1/16), num (-1/16), num (-1/16), num (-1/16), num (-1/16)]\<rparr>"

section \<open>Properties of the floats\<close>

lemma xreal_le_PInf [simp]: "(s :: xreal) \<le> PInf"
  by (cases s) simp_all

lemma xreal_MInf_le [simp]: "MInf \<le> (s :: xreal)"
  by simp

lemma xreal_not_less_PInf: "(\<not> (s :: xreal) < PInf) = (s = PInf)"
  by (cases s) (simp_all add: less_xreal_def)

lemma xreal_Fin_less [simp]: "(Fin a < Fin b) = (a < b)"
  by (auto simp: less_xreal_def)

lemma xreal_Fin_less_PInf [simp]: "Fin a < PInf"
  by (simp add: less_xreal_def)

lemma xreal_MInf_less_Fin [simp]: "MInf < Fin a"
  by (simp add: less_xreal_def)

lemma xreal_not_PInf_less [simp]: "\<not> PInf < (s :: xreal)"
  by (cases s) (simp_all add: less_xreal_def)

lemma small_no_overflow: "\<bar>r\<bar> < 2 ^ 1024 \<Longrightarrow> overflow r = num r"
  by (auto simp: overflow_def)

text \<open>
  \<open>np_sqrt2\<close> is the float64 value nearest to the square root of 2: floats between 1 and 2
  are \<open>1 / 2 ^ 52\<close> apart.
\<close>

lemma np_sqrt2_nearest: "\<bar>sqrt 2 - np_sqrt2\<bar> < 1 / 2 ^ 53"
proof -
  have lo: "(np_sqrt2 - 1 / 2 ^ 53)\<^sup>2 < 2" by (simp add: np_sqrt2_def power2_eq_square)
  have hi: "2 < (np_sqrt2 + 1 / 2 ^ 53)\<^sup>2" by (simp add: np_sqrt2_def power2_eq_square)
  from lo have "np_sqrt2 - 1 / 2 ^ 53 < sqrt 2" by (rule real_less_rsqrt)
  moreover from hi have "sqrt 2 < np_sqrt2 + 1 / 2 ^ 53"
    by (intro real_less_lsqrt) (simp_all add: np_sqrt2_def)
  ultimately show ?thesis by linarith
qed

section \<open>Properties of the best-fit selection\<close>

lemma getitem_filter_other:
  "name \<noteq> k \<Longrightarrow> getitem (filter (\<lambda>c. fst c \<noteq> k) df) name = getitem df name"
  by (induction df) (auto simp: getitem_def)

lemma getitem_in_columns:
  "name \<in> set (columns df) \<Longrightarrow> \<exists>v. getitem df name = Inr v \<and> (name, v) \<in> set df"
  by (induction df) (auto simp: getitem_def columns_def)

lemma getitem_Inr_mem: "getitem df name = Inr v \<Longrightarrow> (name, v) \<in> set df"
  by (auto simp: getitem_def split: option.splits dest: map_of_SomeD)

lemma train_loop_names:
  "train_loop fa atr aid ts ms = Inr out \<Longrightarrow> map fst out = map fst ms @ ts"
proof (induction ts arbitrary: ms)
  case Nil
  then show ?case by simp
next
  case (Cons t ts)
  then show ?case by (auto split: sum.splits)
qed

lemma squared_diff_same_length:
  "length a = length b \<Longrightarrow> \<exists>s. squared_diff fa a b = Inr s"
  by (simp add: squared_diff_def np_sub_def)

lemma squared_diff_eq:
  assumes "length a = length b"
  shows "squared_diff fa a b = Inr (computed_sse fa a b)"
proof -
  have "map (fsquare fa) (map (\<lambda>(u, v). fsub fa u v) (zip a b))
      = map (\<lambda>k. fsquare fa (fsub fa (a ! k) (b ! k))) [0..<length a]"
    using assms by (intro nth_equalityI) simp_all
  with assms show ?thesis by (simp add: squared_diff_def np_sub_def computed_sse_def)
qed

lemma ideal_loop_total:
  assumes "\<forall>c\<in>set cs. \<exists>iv. getitem aid c = Inr iv \<and> length iv = length tv"
  shows "\<exists>st'. ideal_loop fa tv aid cs st = Inr st'"
  using assms
proof (induction cs arbitrary: st)
  case Nil
  then show ?case by simp
next
  case (Cons c cs)
  obtain bf bd where st: "st = (bf, bd)" by (cases st)
  from Cons.prems obtain iv where iv: "getitem aid c = Inr iv" "length iv = length tv" by auto
  then obtain s where s: "squared_diff fa tv iv = Inr s"
    using squared_diff_same_length [of tv iv] by auto
  from Cons.prems have rest: "\<forall>c\<in>set cs. \<exists>iv. getitem aid c = Inr iv \<and> length iv = length tv" by simp
  show ?case using Cons.IH [OF rest] by (simp add: st iv s)
qed

lemma train_loop_total:
  assumes "\<forall>t\<in>set ts. \<exists>tv. getitem atr t = Inr tv \<and> length tv = n"
    and "\<forall>c\<in>set aid. length (snd c) = n"
  shows "\<exists>out. train_loop fa atr aid ts ms = Inr out"
  using assms(1)
proof (induction ts arbitrary: ms)
  case Nil
  then show ?case by simp
next
  case (Cons t ts)
  from Cons.prems obtain tv where tv: "getitem atr t = Inr tv" "length tv = n" by auto
  have "\<forall>c\<in>set (columns aid). \<exists>iv. getitem aid c = Inr iv \<and> length iv = length tv"
  proof
    fix c assume "c \<in> set (columns aid)"
    then obtain v where "getitem aid c = Inr v" "(c, v) \<in> set aid"
      using getitem_in_columns by blast
    with assms(2) tv show "\<exists>iv. getitem aid c = Inr iv \<and> length iv = length tv" by fastforce
  qed
  then obtain st where st: "ideal_loop fa tv aid (columns aid) (None, Some PInf) = Inr st"
    using ideal_loop_total by blast
  from Cons.prems have "\<forall>t\<in>set ts. \<exists>tv. getitem atr t = Inr tv \<and> length tv = n" by simp
  from Cons.IH [OF this] show ?case by (simp add: tv st)
qed

lemma wf_dataframe_lengths: "wf_dataframe df \<Longrightarrow> c \<in> set df \<Longrightarrow> length (snd c) = nrows df"
  by (simp add: wf_dataframe_def list_all_iff)

lemma first_least_SomeD:
  "first_least g cs (Some c) \<Longrightarrow>
     \<exists>pre post s. cs = pre @ c # post \<and> g c = Some s \<and> s < PInf
            \<and> (\<forall>c'\<in>set cs. \<forall>s'. g c' = Some s' \<longrightarrow> s \<le> s')
            \<and> (\<forall>c'\<in>set pre. \<forall>s'. g c' = Some s' \<longrightarrow> s < s')"
  by (simp add: first_least_def)

lemma first_least_snoc_new:
  assumes "g c = Some s" and "s < PInf"
    and "\<forall>c'\<in>set cs. \<forall>s'. g c' = Some s' \<longrightarrow> s < s'"
  shows "first_least g (cs @ [c]) (Some c)"
proof -
  have 1: "cs @ [c] = cs @ c # []" by simp
  have 2: "\<forall>c'\<in>set (cs @ [c]). \<forall>s'. g c' = Some s' \<longrightarrow> s \<le> s'"
  proof (intro ballI allI impI)
    fix c' s' assume m: "c' \<in> set (cs @ [c])" and g: "g c' = Some s'"
    from m have "c' \<in> set cs \<or> c' = c" by auto
    then show "s \<le> s'"
    proof
      assume "c' \<in> set cs"
      with assms(3) g have "s < s'" by blast
      then show ?thesis by simp
    next
      assume "c' = c"
      with g assms(1) show ?thesis by simp
    qed
  qed
  show ?thesis unfolding first_least_def option.case
    using 1 assms(1,2) 2 assms(3) by blast
qed

lemma first_least_snoc_keep:
  assumes "first_least g cs (Some b)" and "g b = Some sb" and "\<not> flt (g c) (Some sb)"
  shows "first_least g (cs @ [c]) (Some b)"
proof -
  from first_least_SomeD [OF assms(1)] obtain pre post s where
      b: "cs = pre @ b # post" "g b = Some s" "s < PInf"
      "\<forall>c'\<in>set cs. \<forall>s'. g c' = Some s' \<longrightarrow> s \<le> s'"
      "\<forall>c'\<in>set pre. \<forall>s'. g c' = Some s' \<longrightarrow> s < s'"
    by blast
  from b(2) assms(2) have ssb: "s = sb" by simp
  have 1: "cs @ [c] = pre @ b # (post @ [c])" using b(1) by simp
  have 2: "\<forall>c'\<in>set (cs @ [c]). \<forall>s'. g c' = Some s' \<longrightarrow> s \<le> s'"
  proof (intro ballI allI impI)
    fix c' s' assume m: "c' \<in> set (cs @ [c])" and g: "g c' = Some s'"
    from m have "c' \<in> set cs \<or> c' = c" by auto
    then show "s \<le> s'"
    proof
      assume "c' \<in> set cs"
      with b(4) g show ?thesis by blast
    next
      assume "c' = c"
      with g assms(3) ssb show ?thesis by simp
    qed
  qed
  show ?thesis unfolding first_least_def option.case
    using 1 b(2,3) 2 b(5) by blast
qed

lemma first_least_snoc_none:
  assumes "first_least g cs None" and "\<not> flt (g c) (Some PInf)"
  shows "first_least g (cs @ [c]) None"
proof -
  from assms(2) have "\<forall>s. g c = Some s \<longrightarrow> s = PInf"
    by (auto simp: xreal_not_less_PInf)
  with assms(1) show ?thesis by (simp add: first_least_def)
qed

lemma ideal_loop_snoc:
  "ideal_loop fa tv aid (cs @ [c]) st =
     (case ideal_loop fa tv aid cs st of Inl e \<Rightarrow> Inl e | Inr st' \<Rightarrow> ideal_loop fa tv aid [c] st')"
proof (induction cs arbitrary: st)
  case Nil
  then show ?case by (cases "ideal_loop fa tv aid [c] st") simp_all
next
  case (Cons a cs)
  obtain bf bd where st: "st = (bf, bd)" by (cases st)
  show ?case by (simp add: st Cons.IH split: sum.splits)
qed

lemma ideal_loop_first_least:
  assumes "\<forall>p\<in>set ps. getitem aid (fst p) = Inr (snd p) \<and> squared_diff fa tv (snd p) = Inr (g p)"
    and "ideal_loop fa tv aid (map fst ps) (None, Some PInf) = Inr (bf, bd)"
  shows "\<exists>r. first_least g ps r \<and> bf = map_option fst r
            \<and> bd = (case r of None \<Rightarrow> Some PInf | Some p \<Rightarrow> g p)"
  using assms
proof (induction ps arbitrary: bf bd rule: rev_induct)
  case Nil
  then show ?case by (simp add: first_least_def)
next
  case (snoc p ps)
  from snoc.prems(1) have iv: "getitem aid (fst p) = Inr (snd p)"
    "squared_diff fa tv (snd p) = Inr (g p)" by simp_all
  from snoc.prems(1) have rest:
    "\<forall>p\<in>set ps. getitem aid (fst p) = Inr (snd p) \<and> squared_diff fa tv (snd p) = Inr (g p)"
    by simp
  from snoc.prems(2) obtain bf0 bd0 where
    mid: "ideal_loop fa tv aid (map fst ps) (None, Some PInf) = Inr (bf0, bd0)"
    and last: "ideal_loop fa tv aid [fst p] (bf0, bd0) = Inr (bf, bd)"
    by (auto simp: ideal_loop_snoc split: sum.splits)
  from snoc.IH [OF rest mid] obtain r0 where inv: "first_least g ps r0"
    and bf0: "bf0 = map_option fst r0"
    and bd0: "bd0 = (case r0 of None \<Rightarrow> Some PInf | Some p \<Rightarrow> g p)" by blast
  show ?case
  proof (cases "flt (g p) bd0")
    case True
    with last iv have r: "bf = Some (fst p)" "bd = g p" by simp_all
    from True obtain s sb where s: "g p = Some s" "bd0 = Some sb" "s < sb"
      by (cases "g p"; cases bd0) auto
    from s(3) have sP: "s < PInf" by (rule less_le_trans) simp
    have "\<forall>c'\<in>set ps. \<forall>s'. g c' = Some s' \<longrightarrow> s < s'"
    proof (cases r0)
      case None
      with bd0 s(2) have "sb = PInf" by simp
      with None inv s(3) show ?thesis by (auto simp: first_least_def)
    next
      case (Some b)
      with bd0 s(2) have gb: "g b = Some sb" by simp
      from inv Some have "first_least g ps (Some b)" by simp
      from first_least_SomeD [OF this] obtain s0 where "g b = Some s0"
        "\<forall>c'\<in>set ps. \<forall>s'. g c' = Some s' \<longrightarrow> s0 \<le> s'"
        by blast
      with gb have "\<forall>c'\<in>set ps. \<forall>s'. g c' = Some s' \<longrightarrow> sb \<le> s'" by simp
      with s(3) show ?thesis by (meson less_le_trans)
    qed
    with s(1) sP have "first_least g (ps @ [p]) (Some p)" by (rule first_least_snoc_new)
    with r show ?thesis by (intro exI [of _ "Some p"]) simp
  next
    case False
    with last iv have r: "bf = bf0" "bd = bd0" by simp_all
    show ?thesis
    proof (cases r0)
      case None
      with bd0 False have "\<not> flt (g p) (Some PInf)" by simp
      with inv None have "first_least g (ps @ [p]) None" by (simp add: first_least_snoc_none)
      with r bf0 bd0 None show ?thesis by (intro exI [of _ None]) simp
    next
      case (Some b)
      with bd0 have bdb: "bd0 = g b" by simp
      from inv Some have "first_least g ps (Some b)" by simp
      from first_least_SomeD [OF this] obtain sb where gb: "g b = Some sb" by blast
      with False bdb have "\<not> flt (g p) (Some sb)" by simp
      with inv Some gb have "first_least g (ps @ [p]) (Some b)"
        by (simp add: first_least_snoc_keep)
      with r bf0 bd0 Some show ?thesis by (intro exI [of _ "Some b"]) simp
    qed
  qed
qed

lemma train_loop_rows:
  "train_loop fa atr aid ts ms0 = Inr out \<Longrightarrow> (t, b) \<in> set out \<Longrightarrow>
     (t, b) \<in> set ms0 \<or>
     (\<exists>tv st. getitem atr t = Inr tv
         \<and> ideal_loop fa tv aid (columns aid) (None, Some PInf) = Inr st \<and> b = fst st)"
proof (induction ts arbitrary: ms0)
  case Nil
  then show ?case by simp
next
  case (Cons a ts)
  from Cons.prems(1) obtain tv st where
    tv: "getitem atr a = Inr tv"
    and st: "ideal_loop fa tv aid (columns aid) (None, Some PInf) = Inr st"
    and rest: "train_loop fa atr aid ts (ms0 @ [(a, fst st)]) = Inr out"
    by (auto split: sum.splits)
  from Cons.IH [OF rest Cons.prems(2)] show ?case
  proof
    assume "(t, b) \<in> set (ms0 @ [(a, fst st)])"
    then have "(t, b) \<in> set ms0 \<or> (t = a \<and> b = fst st)" by auto
    then show ?thesis using tv st by blast
  next
    assume "\<exists>tv st. getitem atr t = Inr tv
         \<and> ideal_loop fa tv aid (columns aid) (None, Some PInf) = Inr st \<and> b = fst st"
    then show ?thesis by simp
  qed
qed

lemma first_least_least_sse_first:
  assumes fm: "first_least (\<lambda>c. computed_sse fa tv (snd c)) cands r"
  shows "least_sse_first fa tv cands (map_option fst r)"
proof (cases r)
  case None
  with fm show ?thesis by (simp add: first_least_def least_sse_first_def)
next
  case (Some p)
  obtain name iv where p: "p = (name, iv)" by (cases p)
  from fm Some p have "first_least (\<lambda>c. computed_sse fa tv (snd c)) cands (Some (name, iv))"
    by simp
  from first_least_SomeD [OF this] obtain pre post s where
    "cands = pre @ (name, iv) # post" "computed_sse fa tv iv = Some s" "s < PInf"
    "\<forall>c\<in>set cands. \<forall>s'. computed_sse fa tv (snd c) = Some s' \<longrightarrow> s \<le> s'"
    "\<forall>c\<in>set pre. \<forall>s'. computed_sse fa tv (snd c) = Some s' \<longrightarrow> s < s'"
    by auto
  then have "least_sse_first fa tv cands (Some name)"
    unfolding least_sse_first_def option.case by blast
  then show ?thesis by (simp add: Some p)
qed

text \<open>
  Claim C10. When the training table or the table of ideal functions has no column
  named x, \<open>map_training_to_ideal_functions\<close> ends in NameError: \<^verbatim>\<open>set_index('x')\<close> raises
  KeyError, and the handler's \<^verbatim>\<open>raise KeyError(...) from err\<close> names the undefined \<^verbatim>\<open>err\<close>.
\<close>

theorem C10_missing_x_is_NameError:
  "''x'' \<notin> set (columns training_data) \<or> ''x'' \<notin> set (columns ideal_functions) \<Longrightarrow>
   map_training_to_ideal_functions fa training_data ideal_functions = Inl NameError"
  by (auto simp: map_training_to_ideal_functions_def set_index_def)

theorem C10_missing_x_is_NameError_witness:
  "''x'' \<notin> set (columns [(''t'', [num 1]), (''y1'', [num 2])])
   \<and> map_training_to_ideal_functions unrounded
        [(''t'', [num 1]), (''y1'', [num 2])] [(''x'', [num 1]), (''y1'', [num 2])]
       = Inl NameError"
proof -
  have h: "''x'' \<notin> set (columns [(''t'', [num 1]), (''y1'', [num 2])])"
    by (simp add: columns_def)
  then have "''x'' \<notin> set (columns [(''t'', [num 1]), (''y1'', [num 2])])
      \<or> ''x'' \<notin> set (columns [(''x'', [num 1]), (''y1'', [num 2])])" by simp
  from h C10_missing_x_is_NameError [OF this] show ?thesis by simp
qed

text \<open>
  Claim C6. The selector returns one mapping per training series, in the order of the
  training columns, whatever the candidates are: every result it returns has exactly the
  training columns as its TrainingData column, and on well-formed tables with x as the
  first training column, an x column among the ideal functions and the same number of
  rows in both tables it does return a result.
\<close>

theorem C6_one_mapping_per_training_series:
  "(\<forall>ms. map_training_to_ideal_functions fa training_data ideal_functions = Inr ms \<longrightarrow>
      map fst ms = training_columns training_data \<and>
      length ms = length (training_columns training_data))
   \<and> (wf_dataframe training_data \<and> wf_dataframe ideal_functions
        \<and> nrows training_data = nrows ideal_functions
        \<and> ''x'' \<in> set (columns ideal_functions)
        \<and> training_data \<noteq> [] \<and> hd (columns training_data) = ''x''
        \<and> distinct (columns training_data)
      \<longrightarrow> (\<exists>ms. map_training_to_ideal_functions fa training_data ideal_functions = Inr ms
              \<and> length ms = length (training_columns training_data)))"
proof (intro conjI allI impI)
  fix ms
  assume ok: "map_training_to_ideal_functions fa training_data ideal_functions = Inr ms"
  then have "map fst ms = training_columns training_data"
    by (auto simp: map_training_to_ideal_functions_def split: sum.splits dest: train_loop_names)
  then show "map fst ms = training_columns training_data"
    and "length ms = length (training_columns training_data)"
    using length_map [of fst ms] by simp_all
next
  assume pre: "wf_dataframe training_data \<and> wf_dataframe ideal_functions
        \<and> nrows training_data = nrows ideal_functions
        \<and> ''x'' \<in> set (columns ideal_functions)
        \<and> training_data \<noteq> [] \<and> hd (columns training_data) = ''x''
        \<and> distinct (columns training_data)"
  define n where "n = nrows training_data"
  define atr where "atr = filter (\<lambda>c. fst c \<noteq> ''x'') training_data"
  define aid where "aid = filter (\<lambda>c. fst c \<noteq> ''x'') ideal_functions"
  from pre obtain c0 rest where td: "training_data = c0 # rest" by (cases training_data) auto
  with pre have c0: "fst c0 = ''x''" by (simp add: columns_def)
  have xin: "''x'' \<in> set (columns training_data)" by (simp add: td columns_def c0)
  have tc: "training_columns training_data = map fst rest"
    by (simp add: training_columns_def columns_def td)
  from pre have d: "distinct (columns training_data)" by simp
  from d have "fst c0 \<notin> set (map fst rest)" by (simp add: td columns_def)
  then have notx: "\<forall>t\<in>set (map fst rest). t \<noteq> ''x''"
    using c0 by metis
  have 1: "\<forall>t\<in>set (training_columns training_data). \<exists>tv. getitem atr t = Inr tv \<and> length tv = n"
  proof
    fix t assume t: "t \<in> set (training_columns training_data)"
    then have "t \<noteq> ''x''" using notx tc by auto
    then have g: "getitem atr t = getitem training_data t"
      unfolding atr_def by (rule getitem_filter_other)
    from t tc have "t \<in> set (map fst rest)" by simp
    then have "t \<in> set (columns training_data)" by (simp add: td columns_def)
    then obtain v where v: "getitem training_data t = Inr v" "(t, v) \<in> set training_data"
      using getitem_in_columns by blast
    from pre v(2) have "length v = n" unfolding n_def by (auto dest: wf_dataframe_lengths)
    with g v show "\<exists>tv. getitem atr t = Inr tv \<and> length tv = n" by simp
  qed
  have 2: "\<forall>c\<in>set aid. length (snd c) = n"
    using pre unfolding aid_def n_def by (auto dest: wf_dataframe_lengths)
  from train_loop_total [OF 1 2] obtain out
    where out: "train_loop fa atr aid (training_columns training_data) [] = Inr out" by blast
  have res: "map_training_to_ideal_functions fa training_data ideal_functions = Inr out"
    using pre xin out by (simp add: map_training_to_ideal_functions_def set_index_def atr_def aid_def)
  moreover from train_loop_names [OF out] have "length out = length (training_columns training_data)"
    using length_map [of fst out] by simp
  ultimately show "\<exists>ms. map_training_to_ideal_functions fa training_data ideal_functions = Inr ms
              \<and> length ms = length (training_columns training_data)" by blast
qed

theorem C6_one_mapping_per_training_series_witness:
  "wf_dataframe [(''x'', [num 1, num 2]), (''y1'', [num 1, num 2]), (''y2'', [num 3, num 5])]
   \<and> wf_dataframe [(''x'', [num 1, num 2])]
   \<and> nrows [(''x'', [num 1, num 2]), (''y1'', [num 1, num 2]), (''y2'', [num 3, num 5])]
       = nrows [(''x'', [num 1, num 2])]
   \<and> ''x'' \<in> set (columns [(''x'', [num 1, num 2])])
   \<and> [(''x'', [num 1, num 2]), (''y1'', [num 1, num 2]), (''y2'', [num 3, num 5])] \<noteq> []
   \<and> hd (columns [(''x'', [num 1, num 2]), (''y1'', [num 1, num 2]), (''y2'', [num 3, num 5])]) = ''x''
   \<and> distinct (columns [(''x'', [num 1, num 2]), (''y1'', [num 1, num 2]), (''y2'', [num 3, num 5])])
   \<and> (\<exists>ms. map_training_to_ideal_functions unrounded
               [(''x'', [num 1, num 2]), (''y1'', [num 1, num 2]), (''y2'', [num 3, num 5])]
               [(''x'', [num 1, num 2])] = Inr ms
          \<and> length ms = 2)"
proof -
  let ?T = "[(''x'', [num 1, num 2]), (''y1'', [num 1, num 2]), (''y2'', [num 3, num 5])]"
  let ?I = "[(''x'', [num 1, num 2])]"
  have h: "wf_dataframe ?T \<and> wf_dataframe ?I \<and> nrows ?T = nrows ?I
      \<and> ''x'' \<in> set (columns ?I) \<and> ?T \<noteq> [] \<and> hd (columns ?T) = ''x''
      \<and> distinct (columns ?T)"
    by (simp add: wf_dataframe_def nrows_def columns_def)
  have l: "length (training_columns ?T) = 2" by (simp add: training_columns_def columns_def)
  from C6_one_mapping_per_training_series [of unrounded ?T ?I] h l show ?thesis by simp
qed

text \<open>
  Claim C4, as the code has it. For every training series the selector picks the candidate
  whose computed sum of squared differences, the float64 value of
  \<^verbatim>\<open>((train_values - ideal_values) ** 2).sum()\<close>, is least among the candidates whose
  computed value is not NaN, and among several candidates of that least value the first
  one in the column order of the table of ideal functions. It picks a candidate only when
  that value is below plus infinity: when the computed value of every candidate is plus
  infinity or NaN it picks none.
\<close>

theorem C4_best_fit_least_computed_sse:
  assumes ok: "map_training_to_ideal_functions fa training_data ideal_functions = Inr ms"
    and row: "(train_column, best) \<in> set ms"
    and wf: "wf_dataframe training_data" "wf_dataframe ideal_functions"
    and n: "nrows training_data = nrows ideal_functions"
    and d: "distinct (columns ideal_functions)"
  shows "\<exists>train_values. getitem training_data train_column = Inr train_values
           \<and> least_sse_first fa train_values (candidates ideal_functions) best"
proof -
  define atr where "atr = filter (\<lambda>c. fst c \<noteq> ''x'') training_data"
  define aid where "aid = candidates ideal_functions"
  from ok have tl: "train_loop fa atr aid (training_columns training_data) [] = Inr ms"
    by (auto simp: map_training_to_ideal_functions_def set_index_def atr_def aid_def
        candidates_def split: if_splits)
  from train_loop_rows [OF tl row] obtain tv st where
    tv: "getitem atr train_column = Inr tv"
    and st: "ideal_loop fa tv aid (columns aid) (None, Some PInf) = Inr st"
    and b: "best = fst st" by auto
  from tv have mem: "(train_column, tv) \<in> set atr" by (rule getitem_Inr_mem)
  then have nx: "train_column \<noteq> ''x''" and mem': "(train_column, tv) \<in> set training_data"
    by (auto simp: atr_def)
  from nx have "getitem atr train_column = getitem training_data train_column"
    unfolding atr_def by (rule getitem_filter_other)
  with tv have g: "getitem training_data train_column = Inr tv" by simp
  from wf(1) mem' have len: "length tv = nrows training_data"
    by (auto dest: wf_dataframe_lengths)
  have da: "distinct (map fst aid)"
    using d by (simp add: aid_def candidates_def columns_def distinct_map_filter)
  have pairs: "\<forall>p\<in>set aid. getitem aid (fst p) = Inr (snd p)
      \<and> squared_diff fa tv (snd p) = Inr (computed_sse fa tv (snd p))"
  proof
    fix p assume p: "p \<in> set aid"
    then have "map_of aid (fst p) = Some (snd p)" using da by simp
    then have 1: "getitem aid (fst p) = Inr (snd p)" by (simp add: getitem_def)
    from p have "p \<in> set ideal_functions" by (simp add: aid_def candidates_def)
    with wf(2) have "length (snd p) = nrows ideal_functions" by (rule wf_dataframe_lengths)
    with len n have "squared_diff fa tv (snd p) = Inr (computed_sse fa tv (snd p))"
      by (simp add: squared_diff_eq)
    with 1 show "getitem aid (fst p) = Inr (snd p)
      \<and> squared_diff fa tv (snd p) = Inr (computed_sse fa tv (snd p))" by simp
  qed
  obtain bf bd where stp: "st = (bf, bd)" by (cases st)
  from st have "ideal_loop fa tv aid (map fst aid) (None, Some PInf) = Inr (bf, bd)"
    by (simp add: stp columns_def)
  from ideal_loop_first_least [OF pairs this] obtain r where
    r: "first_least (\<lambda>c. computed_sse fa tv (snd c)) aid r" "bf = map_option fst r" by blast
  from r(1) have "least_sse_first fa tv aid (map_option fst r)"
    by (rule first_least_least_sse_first)
  with g b stp r(2) show ?thesis by (simp add: aid_def)
qed

text \<open>
  Four candidates with the computed sums 50, 9, 8 and 8 against the training series
  (0, 0): the first of the two candidates with the least sum is chosen.
\<close>

theorem C4_best_fit_least_computed_sse_witness:
  "map_training_to_ideal_functions unrounded
       [(''x'', [num 1, num 2]), (''y1'', [num 0, num 0])]
       [(''x'', [num 1, num 2]), (''e'', [num 5, num 5]), (''a'', [num 3, num 0]),
        (''b'', [num 2, num 2]), (''c'', [num (-2), num 2])]
     = Inr [(''y1'', Some ''b'')]
   \<and> (''y1'', Some ''b'') \<in> set [(''y1'', Some ''b'')]
   \<and> wf_dataframe [(''x'', [num 1, num 2]), (''y1'', [num 0, num 0])]
   \<and> wf_dataframe [(''x'', [num 1, num 2]), (''e'', [num 5, num 5]), (''a'', [num 3, num 0]),
        (''b'', [num 2, num 2]), (''c'', [num (-2), num 2])]
   \<and> nrows [(''x'', [num 1, num 2]), (''y1'', [num 0, num 0])]
       = nrows [(''x'', [num 1, num 2]), (''e'', [num 5, num 5]), (''a'', [num 3, num 0]),
        (''b'', [num 2, num 2]), (''c'', [num (-2), num 2])]
   \<and> distinct (columns [(''x'', [num 1, num 2]), (''e'', [num 5, num 5]), (''a'', [num 3, num 0]),
        (''b'', [num 2, num 2]), (''c'', [num (-2), num 2])])
   \<and> computed_sse unrounded [num 0, num 0] [num 5, num 5] = num 50
   \<and> computed_sse unrounded [num 0, num 0] [num 3, num 0] = num 9
   \<and> computed_sse unrounded [num 0, num 0] [num 2, num 2] = num 8
   \<and> computed_sse unrounded [num 0, num 0] [num (-2), num 2] = num 8
   \<and> (\<exists>train_values. getitem [(''x'', [num 1, num 2]), (''y1'', [num 0, num 0])] ''y1''
          = Inr train_values
        \<and> least_sse_first unrounded train_values
            (candidates [(''x'', [num 1, num 2]), (''e'', [num 5, num 5]), (''a'', [num 3, num 0]),
        (''b'', [num 2, num 2]), (''c'', [num (-2), num 2])])
            (Some ''b''))"
proof -
  let ?T = "[(''x'', [num 1, num 2]), (''y1'', [num 0, num 0])]"
  let ?I = "[(''x'', [num 1, num 2]), (''e'', [num 5, num 5]), (''a'', [num 3, num 0]),
        (''b'', [num 2, num 2]), (''c'', [num (-2), num 2])]"
  have ok: "map_training_to_ideal_functions unrounded ?T ?I = Inr [(''y1'', Some ''b'')]"
    by (simp add: map_training_to_ideal_functions_def set_index_def columns_def
        training_columns_def getitem_def squared_diff_def np_sub_def unrounded_def
        small_no_overflow)
  have row: "(''y1'', Some ''b'') \<in> set [(''y1'', Some ''b'')]" by simp
  have wf: "wf_dataframe ?T" "wf_dataframe ?I" and n: "nrows ?T = nrows ?I"
    by (simp_all add: wf_dataframe_def nrows_def)
  have d: "distinct (columns ?I)" by (simp add: columns_def)
  have sse: "computed_sse unrounded [num 0, num 0] [num 5, num 5] = num 50"
    "computed_sse unrounded [num 0, num 0] [num 3, num 0] = num 9"
    "computed_sse unrounded [num 0, num 0] [num 2, num 2] = num 8"
    "computed_sse unrounded [num 0, num 0] [num (-2), num 2] = num 8"
    by (simp_all add: computed_sse_def unrounded_def small_no_overflow upt_rec)
  from C4_best_fit_least_computed_sse [OF ok row wf n d] ok row wf n d sse show ?thesis by simp
qed

text \<open>
  The claim as the specification states it fails where the squares overflow: the training
  value \<open>2 ^ 600\<close> against the candidate 0 has the computed sum plus infinity, which is not
  below the initial \<^verbatim>\<open>float("inf")\<close>, and no candidate is chosen although there is one.
\<close>

theorem C4_counterexample:
  "map_training_to_ideal_functions unrounded
       [(''x'', [num 1]), (''y1'', [num (2 ^ 600)])] [(''x'', [num 1]), (''a'', [num 0])]
     = Inr [(''y1'', None)]"
  by (simp add: map_training_to_ideal_functions_def set_index_def columns_def
      training_columns_def getitem_def squared_diff_def np_sub_def unrounded_def overflow_def)

section \<open>Tables of different length\<close>

lemma np_sub_mismatch:
  "length a \<noteq> length b \<Longrightarrow> length a \<noteq> 1 \<Longrightarrow> length b \<noteq> 1 \<Longrightarrow> np_sub fa a b = Inl ValueError"
  by (simp add: np_sub_def)

lemma ideal_loop_mismatch:
  assumes "getitem aid c = Inr iv" and "length tv \<noteq> length iv"
    and "length tv \<noteq> 1" and "length iv \<noteq> 1"
  shows "ideal_loop fa tv aid (c # cs) st = Inl ValueError"
proof -
  obtain bf bd where st: "st = (bf, bd)" by (cases st)
  from assms(2-4) have "squared_diff fa tv iv = Inl ValueError"
    by (simp add: squared_diff_def np_sub_mismatch)
  with assms(1) show ?thesis by (simp add: st)
qed

lemma selection_shape_mismatch:
  assumes wf: "wf_dataframe training_data" "wf_dataframe ideal_functions"
    and xfirst: "hd (columns training_data) = ''x''"
    and d: "distinct (columns training_data)"
    and series: "training_columns training_data \<noteq> []"
    and xi: "''x'' \<in> set (columns ideal_functions)"
    and cands: "candidates ideal_functions \<noteq> []"
    and ragged: "nrows training_data \<noteq> nrows ideal_functions"
    and n1: "nrows training_data \<noteq> 1" "nrows ideal_functions \<noteq> 1"
  shows "map_training_to_ideal_functions fa training_data ideal_functions = Inl ValueError"
proof -
  define atr where "atr = filter (\<lambda>c. fst c \<noteq> ''x'') training_data"
  define aid where "aid = filter (\<lambda>c. fst c \<noteq> ''x'') ideal_functions"
  from series obtain c0 c1 rest where td: "training_data = c0 # c1 # rest"
    by (cases training_data; cases "tl training_data")
       (auto simp: training_columns_def columns_def)
  from xfirst have c0: "fst c0 = ''x''" by (simp add: td columns_def)
  from d have "fst c1 \<noteq> fst c0" by (auto simp: td columns_def)
  with c0 have c1: "fst c1 \<noteq> ''x''" by simp
  have tc: "training_columns training_data = fst c1 # map fst rest"
    by (simp add: training_columns_def columns_def td)
  have xin: "''x'' \<in> set (columns training_data)" by (simp add: td columns_def c0)
  from c1 have "getitem atr (fst c1) = getitem training_data (fst c1)"
    unfolding atr_def by (rule getitem_filter_other)
  moreover have "fst c1 \<in> set (columns training_data)" by (simp add: td columns_def)
  ultimately obtain tv where tv: "getitem atr (fst c1) = Inr tv" "(fst c1, tv) \<in> set training_data"
    using getitem_in_columns by metis
  from wf(1) tv(2) have ltv: "length tv = nrows training_data"
    by (auto dest: wf_dataframe_lengths)
  from cands obtain p ps where aidc: "aid = p # ps"
    by (cases aid) (auto simp: aid_def candidates_def)
  have "fst p \<in> set (columns aid)" by (simp add: aidc columns_def)
  then obtain iv where iv: "getitem aid (fst p) = Inr iv" "(fst p, iv) \<in> set aid"
    using getitem_in_columns by blast
  from iv(2) have "(fst p, iv) \<in> set ideal_functions" by (simp add: aid_def)
  with wf(2) have liv: "length iv = nrows ideal_functions"
    by (auto dest: wf_dataframe_lengths)
  have cols: "columns aid = fst p # map fst ps" by (simp add: aidc columns_def)
  from ltv liv ragged n1 have "length tv \<noteq> length iv" "length tv \<noteq> 1" "length iv \<noteq> 1"
    by metis+
  with iv(1) have "ideal_loop fa tv aid (columns aid) (None, Some PInf) = Inl ValueError"
    unfolding cols by (rule ideal_loop_mismatch)
  with tv(1) have "train_loop fa atr aid (training_columns training_data) [] = Inl ValueError"
    by (simp add: tc)
  with xin xi show ?thesis
    by (simp add: map_training_to_ideal_functions_def set_index_def atr_def aid_def)
qed

lemma create_loop_append:
  "create_loop fa (a @ b) ideal_functions training_data md =
     (case create_loop fa a ideal_functions training_data md of
        Inl e \<Rightarrow> Inl e
      | Inr m \<Rightarrow> create_loop fa b ideal_functions training_data m)"
proof (induction a arbitrary: md)
  case Nil
  then show ?case by simp
next
  case (Cons r a)
  obtain tc ic where r: "r = (tc, ic)" by (cases r)
  show ?case by (simp add: r Cons.IH split: option.splits sum.splits)
qed

lemma create_loop_step:
  assumes "create_loop fa ((tc, Some name) # rest) ideal_functions training_data md = Inr md'"
    and "name \<in> set (columns ideal_functions)"
  shows "\<exists>xs iv tv. getitem training_data ''x'' = Inr xs \<and> getitem ideal_functions name = Inr iv
           \<and> getitem training_data tc = Inr tv
           \<and> create_loop fa rest ideal_functions training_data
                (AList.update name (build_mapped_dataframe fa xs iv tv) md) = Inr md'"
  using assms by (auto split: sum.splits)

lemma create_loop_skip:
  "\<not> known_candidate ideal_functions r \<Longrightarrow>
     create_loop fa (r # ms) ideal_functions training_data md
       = create_loop fa ms ideal_functions training_data md"
  by (cases r; cases "snd r") (auto simp: known_candidate_def)

lemma known_candidateD:
  "known_candidate ideal_functions r \<Longrightarrow>
     \<exists>tc name. r = (tc, Some name) \<and> name \<in> set (columns ideal_functions)"
  by (cases r; cases "snd r") (auto simp: known_candidate_def)

lemma create_loop_keys:
  "create_loop fa ms ideal_functions training_data md = Inr md' \<Longrightarrow>
     fst ` set md' = fst ` set md \<union>
       {name. name \<in> set (columns ideal_functions) \<and> Some name \<in> snd ` set ms}"
proof (induction ms arbitrary: md)
  case Nil
  then show ?case by simp
next
  case (Cons r ms)
  show ?case
  proof (cases "known_candidate ideal_functions r")
    case True
    then obtain tc name where r: "r = (tc, Some name)" and n: "name \<in> set (columns ideal_functions)"
      using known_candidateD by blast
    from Cons.prems obtain P where
      "create_loop fa ms ideal_functions training_data (AList.update name P md) = Inr md'"
      using create_loop_step [of fa tc name ms ideal_functions training_data md md'] n
      by (auto simp: r)
    from Cons.IH [OF this] show ?thesis using n by (auto simp: r AList.dom_update)
  next
    case False
    with Cons.prems have "create_loop fa ms ideal_functions training_data md = Inr md'"
      by (simp add: create_loop_skip)
    from Cons.IH [OF this] show ?thesis using False
      by (cases r; cases "snd r") (auto simp: known_candidate_def)
  qed
qed

lemma create_loop_total:
  assumes "''x'' \<in> set (columns training_data)"
    and "\<forall>r\<in>set ms. fst r \<in> set (columns training_data)"
  shows "\<exists>md'. create_loop fa ms ideal_functions training_data md = Inr md'"
  using assms(2)
proof (induction ms arbitrary: md)
  case Nil
  then show ?case by simp
next
  case (Cons r ms)
  from Cons.prems have rest: "\<forall>r\<in>set ms. fst r \<in> set (columns training_data)" by simp
  show ?case
  proof (cases "known_candidate ideal_functions r")
    case True
    then obtain tc name where r: "r = (tc, Some name)" and n: "name \<in> set (columns ideal_functions)"
      using known_candidateD by blast
    from assms(1) obtain xs where xs: "getitem training_data ''x'' = Inr xs"
      using getitem_in_columns by blast
    from n obtain iv where iv: "getitem ideal_functions name = Inr iv"
      using getitem_in_columns by blast
    from Cons.prems r obtain tv where tv: "getitem training_data tc = Inr tv"
      using getitem_in_columns by fastforce
    from Cons.IH [OF rest] show ?thesis by (simp add: r n xs iv tv)
  next
    case False
    with Cons.IH [OF rest] show ?thesis by (simp add: create_loop_skip)
  qed
qed

lemma update_entry:
  "entry \<in> set (AList.update k v al) \<Longrightarrow> entry \<in> set al \<or> entry = (k, v)"
  by (induction al) (auto split: if_splits)

lemma create_loop_values:
  assumes "create_loop fa ms ideal_functions training_data md = Inr md'"
    and "entry \<in> set md'"
  shows "entry \<in> set md \<or> profile_of_row fa ms ideal_functions training_data entry"
  using assms
proof (induction ms arbitrary: md)
  case Nil
  then show ?case by simp
next
  case (Cons r ms)
  have mono: "profile_of_row fa ms ideal_functions training_data entry
      \<Longrightarrow> profile_of_row fa (r # ms) ideal_functions training_data entry"
    unfolding profile_of_row_def by auto
  show ?case
  proof (cases "known_candidate ideal_functions r")
    case True
    then obtain tc name where r: "r = (tc, Some name)" and n: "name \<in> set (columns ideal_functions)"
      using known_candidateD by blast
    from Cons.prems(1) create_loop_step [of fa tc name ms ideal_functions training_data md md'] n
    obtain xs iv tv where
      g: "getitem training_data ''x'' = Inr xs" "getitem ideal_functions name = Inr iv"
         "getitem training_data tc = Inr tv"
      and rest: "create_loop fa ms ideal_functions training_data
                (AList.update name (build_mapped_dataframe fa xs iv tv) md) = Inr md'"
      by (auto simp: r)
    from Cons.IH [OF rest Cons.prems(2)] show ?thesis
    proof
      assume "entry \<in> set (AList.update name (build_mapped_dataframe fa xs iv tv) md)"
      then have "entry \<in> set md \<or> entry = (name, build_mapped_dataframe fa xs iv tv)"
        by (rule update_entry)
      then show ?thesis
      proof
        assume "entry \<in> set md" then show ?thesis by simp
      next
        assume e: "entry = (name, build_mapped_dataframe fa xs iv tv)"
        have "profile_of_row fa (r # ms) ideal_functions training_data entry"
          unfolding profile_of_row_def using g by (auto simp: e r)
        then show ?thesis by simp
      qed
    next
      assume "profile_of_row fa ms ideal_functions training_data entry"
      then show ?thesis using mono by simp
    qed
  next
    case False
    with Cons.prems(1) have "create_loop fa ms ideal_functions training_data md = Inr md'"
      by (simp add: create_loop_skip)
    from Cons.IH [OF this Cons.prems(2)] show ?thesis using mono by auto
  qed
qed

text \<open>
  Claim C7, as the code has it. When the two tables differ in their number of rows and
  neither has exactly one row (numpy broadcasts a one-row array), the selection fails with
  ValueError, the error the code raises for mismatched shapes, and returns no mapping at
  all; this needs an x column in both tables, x first among the distinct training columns,
  a training series and a candidate. The profile stage has no shape check: on the same
  tables, given mapping rows that name training columns, it returns a dictionary whose
  keys are exactly the ideal functions of the mapping rows that are columns of the table
  of ideal functions (the other rows are dropped), each with a frame built from the x
  column, that ideal function and the training series of such a row.
\<close>

theorem C7_shape_mismatch_aborts_selection:
  assumes "wf_dataframe training_data" and "wf_dataframe ideal_functions"
    and "hd (columns training_data) = ''x''"
    and "distinct (columns training_data)"
    and "training_columns training_data \<noteq> []"
    and "''x'' \<in> set (columns ideal_functions)"
    and "candidates ideal_functions \<noteq> []"
    and "nrows training_data \<noteq> nrows ideal_functions"
    and "nrows training_data \<noteq> 1" and "nrows ideal_functions \<noteq> 1"
    and rows: "\<forall>r\<in>set ms. fst r \<in> set (columns training_data)"
  shows "map_training_to_ideal_functions fa training_data ideal_functions = Inl ValueError
       \<and> (\<exists>md. create_mapped_dataframes fa ms ideal_functions training_data = Inr md
             \<and> fst ` set md
                 = {name. name \<in> set (columns ideal_functions) \<and> Some name \<in> snd ` set ms}
             \<and> (\<forall>entry\<in>set md. profile_of_row fa ms ideal_functions training_data entry))"
proof
  from assms(1-10) show "map_training_to_ideal_functions fa training_data ideal_functions = Inl ValueError"
    by (rule selection_shape_mismatch)
  from assms(5) have "training_data \<noteq> []" by (auto simp: training_columns_def columns_def)
  with assms(3) have "''x'' \<in> set (columns training_data)"
    by (cases "columns training_data") (auto simp: columns_def)
  from create_loop_total [OF this rows] obtain md where
    md: "create_loop fa ms ideal_functions training_data [] = Inr md" by blast
  from create_loop_keys [OF md] have keys:
    "fst ` set md = {name. name \<in> set (columns ideal_functions) \<and> Some name \<in> snd ` set ms}"
    by simp
  have "\<forall>entry\<in>set md. profile_of_row fa ms ideal_functions training_data entry"
    using create_loop_values [OF md] by auto
  with md keys show "\<exists>md. create_mapped_dataframes fa ms ideal_functions training_data = Inr md
             \<and> fst ` set md
                 = {name. name \<in> set (columns ideal_functions) \<and> Some name \<in> snd ` set ms}
             \<and> (\<forall>entry\<in>set md. profile_of_row fa ms ideal_functions training_data entry)"
    by (simp add: create_mapped_dataframes_def)
qed

text \<open>
  Three rows against two: the selection fails, and the profile stage drops the row of the
  unknown ideal function and pads the short candidate with NaN.
\<close>

theorem C7_shape_mismatch_aborts_selection_witness:
  "wf_dataframe [(''x'', [num 1, num 2, num 3]), (''y1'', [num 1, num 2, num 3])]
   \<and> wf_dataframe [(''x'', [num 1, num 2]), (''c1'', [num 1, num 2])]
   \<and> nrows [(''x'', [num 1, num 2, num 3]), (''y1'', [num 1, num 2, num 3])] = 3
   \<and> nrows [(''x'', [num 1, num 2]), (''c1'', [num 1, num 2])] = 2
   \<and> map_training_to_ideal_functions unrounded
        [(''x'', [num 1, num 2, num 3]), (''y1'', [num 1, num 2, num 3])]
        [(''x'', [num 1, num 2]), (''c1'', [num 1, num 2])]
       = Inl ValueError
   \<and> create_mapped_dataframes unrounded [(''y1'', Some ''zz''), (''y1'', Some ''c1'')]
        [(''x'', [num 1, num 2]), (''c1'', [num 1, num 2])]
        [(''x'', [num 1, num 2, num 3]), (''y1'', [num 1, num 2, num 3])]
       = Inr [(''c1'', \<lparr>col_x = [num 1, num 2, num 3], col_y_ideal = [num 1, num 2, NaN],
                 col_y_train = [num 1, num 2, num 3], col_y_diff = [num 0, num 0, NaN]\<rparr>)]"
proof -
  let ?T = "[(''x'', [num 1, num 2, num 3]), (''y1'', [num 1, num 2, num 3])]"
  let ?I = "[(''x'', [num 1, num 2]), (''c1'', [num 1, num 2])]"
  let ?ms = "[(''y1'', Some ''zz''), (''y1'', Some ''c1'')]"
  have wf: "wf_dataframe ?T" "wf_dataframe ?I" and n: "nrows ?T = 3" "nrows ?I = 2"
    by (simp_all add: wf_dataframe_def nrows_def)
  have h: "hd (columns ?T) = ''x''" "distinct (columns ?T)" "training_columns ?T \<noteq> []"
    "''x'' \<in> set (columns ?I)" "candidates ?I \<noteq> []"
    by (simp_all add: columns_def training_columns_def candidates_def)
  from n have r: "nrows ?T \<noteq> nrows ?I" "nrows ?T \<noteq> 1" "nrows ?I \<noteq> 1" by simp_all
  have rows: "\<forall>r\<in>set ?ms. fst r \<in> set (columns ?T)" by (simp add: columns_def)
  note inst = C7_shape_mismatch_aborts_selection [OF wf h r rows, of unrounded]
  from inst have a: "map_training_to_ideal_functions unrounded ?T ?I = Inl ValueError"
    by (rule conjunct1)
  have b: "create_mapped_dataframes unrounded ?ms ?I ?T
       = Inr [(''c1'', \<lparr>col_x = [num 1, num 2, num 3], col_y_ideal = [num 1, num 2, NaN],
                 col_y_train = [num 1, num 2, num 3], col_y_diff = [num 0, num 0, NaN]\<rparr>)]"
    by (simp add: create_mapped_dataframes_def columns_def getitem_def build_mapped_dataframe_def
        reindex_def upt_rec Let_def unrounded_def small_no_overflow)
  from wf n a b show ?thesis by (intro conjI)
qed

text \<open>
  The claim as the specification states it fails on a training table of two rows and a
  candidate of one row: the subtraction broadcasts, the selection returns a mapping, and
  the profile stage pads the short candidate with NaN.
\<close>

theorem C7_counterexample:
  "map_training_to_ideal_functions unrounded
       [(''x'', [num 1, num 2]), (''y1'', [num 1, num 2])] [(''x'', [num 1]), (''c1'', [num 1])]
     = Inr [(''y1'', Some ''c1'')]
   \<and> create_mapped_dataframes unrounded [(''y1'', Some ''c1'')]
       [(''x'', [num 1]), (''c1'', [num 1])] [(''x'', [num 1, num 2]), (''y1'', [num 1, num 2])]
     = Inr [(''c1'', \<lparr>col_x = [num 1, num 2], col_y_ideal = [num 1, NaN],
               col_y_train = [num 1, num 2], col_y_diff = [num 0, NaN]\<rparr>)]"
proof -
  have "map_training_to_ideal_functions unrounded
       [(''x'', [num 1, num 2]), (''y1'', [num 1, num 2])] [(''x'', [num 1]), (''c1'', [num 1])]
     = Inr [(''y1'', Some ''c1'')]"
    by (simp add: map_training_to_ideal_functions_def set_index_def columns_def
        training_columns_def getitem_def squared_diff_def np_sub_def unrounded_def
        small_no_overflow)
  moreover have "create_mapped_dataframes unrounded [(''y1'', Some ''c1'')]
       [(''x'', [num 1]), (''c1'', [num 1])] [(''x'', [num 1, num 2]), (''y1'', [num 1, num 2])]
     = Inr [(''c1'', \<lparr>col_x = [num 1, num 2], col_y_ideal = [num 1, NaN],
               col_y_train = [num 1, num 2], col_y_diff = [num 0, NaN]\<rparr>)]"
    by (simp add: create_mapped_dataframes_def columns_def getitem_def build_mapped_dataframe_def
       reindex_def upt_rec Let_def unrounded_def small_no_overflow)
  ultimately show ?thesis by simp
qed

section \<open>Properties of the deviation profiles\<close>

lemma create_loop_distinct:
  "create_loop fa ms ideal_functions training_data md = Inr md' \<Longrightarrow> distinct (map fst md)
     \<Longrightarrow> distinct (map fst md')"
proof (induction ms arbitrary: md)
  case Nil
  then show ?case by simp
next
  case (Cons r ms)
  show ?case
  proof (cases "known_candidate ideal_functions r")
    case True
    then obtain tc name where r: "r = (tc, Some name)" and n: "name \<in> set (columns ideal_functions)"
      using known_candidateD by blast
    from Cons.prems obtain P where
      "create_loop fa ms ideal_functions training_data (AList.update name P md) = Inr md'"
      using create_loop_step [of fa tc name ms ideal_functions training_data md md'] n
      by (auto simp: r)
    from Cons.IH [OF this] Cons.prems(2) show ?thesis by (simp add: AList.distinct_update)
  next
    case False
    with Cons.prems have "create_loop fa ms ideal_functions training_data md = Inr md'"
      by (simp add: create_loop_skip)
    from Cons.IH [OF this] Cons.prems(2) show ?thesis .
  qed
qed

lemma create_loop_untouched:
  "create_loop fa ms ideal_functions training_data md = Inr md' \<Longrightarrow> Some name \<notin> snd ` set ms
     \<Longrightarrow> map_of md' name = map_of md name"
proof (induction ms arbitrary: md)
  case Nil
  then show ?case by simp
next
  case (Cons r ms)
  from Cons.prems(2) have icn: "snd r \<noteq> Some name" and rest: "Some name \<notin> snd ` set ms"
    by auto
  show ?case
  proof (cases "known_candidate ideal_functions r")
    case True
    then obtain tc other where r: "r = (tc, Some other)"
      and n: "other \<in> set (columns ideal_functions)"
      using known_candidateD by blast
    from Cons.prems obtain P where
      "create_loop fa ms ideal_functions training_data (AList.update other P md) = Inr md'"
      using create_loop_step [of fa tc other ms ideal_functions training_data md md'] n
      by (auto simp: r)
    from Cons.IH [OF this rest] show ?thesis using icn r by (simp add: AList.update_conv')
  next
    case False
    with Cons.prems have "create_loop fa ms ideal_functions training_data md = Inr md'"
      by (simp add: create_loop_skip)
    from Cons.IH [OF this rest] show ?thesis .
  qed
qed

lemma create_loop_last_wins:
  assumes ok: "create_loop fa (pre @ (tc, Some name) # post) ideal_functions training_data md = Inr md'"
    and known: "name \<in> set (columns ideal_functions)"
    and last: "Some name \<notin> snd ` set post"
  shows "\<exists>xs iv tv. getitem training_data ''x'' = Inr xs \<and> getitem ideal_functions name = Inr iv
           \<and> getitem training_data tc = Inr tv
           \<and> map_of md' name = Some (build_mapped_dataframe fa xs iv tv)"
proof -
  from ok obtain m1 where
    "create_loop fa ((tc, Some name) # post) ideal_functions training_data m1 = Inr md'"
    by (auto simp: create_loop_append split: sum.splits)
  from create_loop_step [OF this known] obtain xs iv tv where
    g: "getitem training_data ''x'' = Inr xs" "getitem ideal_functions name = Inr iv"
       "getitem training_data tc = Inr tv"
    and rest: "create_loop fa post ideal_functions training_data
                (AList.update name (build_mapped_dataframe fa xs iv tv) m1) = Inr md'"
    by blast
  from create_loop_untouched [OF rest last]
  have "map_of md' name = Some (build_mapped_dataframe fa xs iv tv)"
    by (simp add: AList.update_conv')
  with g show ?thesis by blast
qed

lemma create_fewer_profiles:
  assumes ok: "create_mapped_dataframes fa ms ideal_functions training_data = Inr md"
    and dup: "\<not> distinct (map snd ms)"
  shows "length md < length ms"
proof -
  from ok have c: "create_loop fa ms ideal_functions training_data [] = Inr md"
    by (simp add: create_mapped_dataframes_def)
  from create_loop_distinct [OF c] have "distinct (map fst md)" by simp
  then have "length md = card (fst ` set md)" by (simp add: distinct_card flip: set_map)
  also have "\<dots> = card (Some ` fst ` set md)" by (simp add: card_image)
  also have "\<dots> \<le> card (set (map snd ms))"
  proof (rule card_mono)
    show "finite (set (map snd ms))" by simp
    show "Some ` fst ` set md \<subseteq> set (map snd ms)"
      using create_loop_keys [OF c] by auto
  qed
  also have "\<dots> < length (map snd ms)"
    using dup card_distinct [of "map snd ms"] card_length [of "map snd ms"] by linarith
  finally show ?thesis by simp
qed

text \<open>
  Claim C9. The dictionary returned by \<open>create_mapped_dataframes\<close> is keyed by the name of
  the ideal function: its keys are distinct, the profile stored under a name is the one
  built from the last mapping row with that ideal function, and as soon as two mapping
  rows share their ideal function there are strictly fewer profiles than mappings.
\<close>

theorem C9_profiles_keyed_by_ideal_function:
  assumes "create_mapped_dataframes fa ms ideal_functions training_data = Inr md"
  shows "distinct (map fst md)
       \<and> (\<not> distinct (map snd ms) \<longrightarrow> length md < length ms)
       \<and> (\<forall>pre tc name post.
             ms = pre @ (tc, Some name) # post \<and> name \<in> set (columns ideal_functions)
               \<and> Some name \<notin> snd ` set post
             \<longrightarrow> (\<exists>xs iv tv. getitem training_data ''x'' = Inr xs
                    \<and> getitem ideal_functions name = Inr iv
                    \<and> getitem training_data tc = Inr tv
                    \<and> map_of md name = Some (build_mapped_dataframe fa xs iv tv)))"
proof (intro conjI allI impI)
  from assms have c: "create_loop fa ms ideal_functions training_data [] = Inr md"
    by (simp add: create_mapped_dataframes_def)
  from create_loop_distinct [OF c] show "distinct (map fst md)" by simp
  {
    assume "\<not> distinct (map snd ms)"
    with assms show "length md < length ms" by (rule create_fewer_profiles)
  }
  fix pre tc name post
  assume h: "ms = pre @ (tc, Some name) # post \<and> name \<in> set (columns ideal_functions)
               \<and> Some name \<notin> snd ` set post"
  with c have "create_loop fa (pre @ (tc, Some name) # post) ideal_functions training_data [] = Inr md"
    by simp
  from create_loop_last_wins [OF this] h
  show "\<exists>xs iv tv. getitem training_data ''x'' = Inr xs
                    \<and> getitem ideal_functions name = Inr iv
                    \<and> getitem training_data tc = Inr tv
                    \<and> map_of md name = Some (build_mapped_dataframe fa xs iv tv)" by blast
qed

theorem C9_profiles_keyed_by_ideal_function_witness:
  "create_mapped_dataframes unrounded [(''y1'', Some ''c1''), (''y2'', Some ''c1'')]
       [(''x'', [num 1, num 2]), (''c1'', [num 1, num 2])]
       [(''x'', [num 1, num 2]), (''y1'', [num 1, num 3]), (''y2'', [num 2, num 2])]
     = Inr [(''c1'', build_mapped_dataframe unrounded [num 1, num 2] [num 1, num 2] [num 2, num 2])]
   \<and> \<not> distinct (map snd [(''y1'', Some ''c1''), (''y2'', Some ''c1'')])
   \<and> length [(''c1'', build_mapped_dataframe unrounded [num 1, num 2] [num 1, num 2] [num 2, num 2])]
       < length [(''y1'', Some ''c1''), (''y2'', Some ''c1'')]
   \<and> map_of [(''c1'', build_mapped_dataframe unrounded [num 1, num 2] [num 1, num 2] [num 2, num 2])]
        ''c1''
       = Some (build_mapped_dataframe unrounded [num 1, num 2] [num 1, num 2] [num 2, num 2])"
proof -
  let ?ms = "[(''y1'', Some ''c1''), (''y2'', Some ''c1'')]"
  let ?I = "[(''x'', [num 1, num 2]), (''c1'', [num 1, num 2])]"
  let ?T = "[(''x'', [num 1, num 2]), (''y1'', [num 1, num 3]), (''y2'', [num 2, num 2])]"
  let ?md = "[(''c1'', build_mapped_dataframe unrounded [num 1, num 2] [num 1, num 2] [num 2, num 2])]"
  have ok: "create_mapped_dataframes unrounded ?ms ?I ?T = Inr ?md"
    by (simp add: create_mapped_dataframes_def columns_def getitem_def)
  have dup: "\<not> distinct (map snd ?ms)" by simp
  from C9_profiles_keyed_by_ideal_function [OF ok] dup
  have "length ?md < length ?ms" by blast
  with ok dup show ?thesis by simp
qed

section \<open>Properties of the classification\<close>

lemma build_mapped_dataframe_wf: "wf_mapped_dataframe (build_mapped_dataframe fa xs iv tv)"
  by (simp add: wf_mapped_dataframe_def build_mapped_dataframe_def reindex_def Let_def)

lemma loc_empty_iff:
  "length ys = length xs \<Longrightarrow>
     (map snd (filter (\<lambda>r. feq (fst r) v) (zip xs ys)) = []) = (\<not> (\<exists>c\<in>set xs. feq c v))"
proof (induction xs arbitrary: ys)
  case Nil
  then show ?case by simp
next
  case (Cons a xs)
  then obtain b ys' where "ys = b # ys'" "length ys' = length xs" by (cases ys) auto
  with Cons.IH [of ys'] show ?case by auto
qed

lemma deviation_test_error_iff:
  assumes "wf_mapped_dataframe df"
  shows "(deviation_test fa df x y = Inl e) = (e = IndexError \<and> \<not> in_domain df x)"
proof -
  from assms have "(loc_y_ideal df x = []) = (\<not> in_domain df x)"
    unfolding loc_y_ideal_def wf_mapped_dataframe_def in_domain_def by (intro loc_empty_iff) simp
  then show ?thesis
    by (cases "loc_y_ideal df x") (auto simp: deviation_test_def)
qed

lemma profile_loop_snoc:
  "profile_loop fa x y (ps @ [p]) st =
     (case profile_loop fa x y ps st of Inl e \<Rightarrow> Inl e | Inr st' \<Rightarrow> profile_loop fa x y [p] st')"
proof (induction ps arbitrary: st)
  case Nil
  then show ?case by (cases "profile_loop fa x y [p] st") simp_all
next
  case (Cons a ps)
  obtain n df where a: "a = (n, df)" by (cases a)
  show ?case by (simp add: a Cons.IH split: sum.splits)
qed

lemma profile_loop_error_iff:
  assumes "\<forall>p\<in>set mds. wf_mapped_dataframe (snd p)"
  shows "(profile_loop fa x y mds st = Inl e) =
           (e = IndexError \<and> (\<exists>p\<in>set mds. \<not> in_domain (snd p) x))"
  using assms
proof (induction mds arbitrary: st)
  case Nil
  then show ?case by simp
next
  case (Cons a mds)
  obtain n df where a: "a = (n, df)" by (cases a)
  from Cons.prems have wf: "wf_mapped_dataframe df" and rest: "\<forall>p\<in>set mds. wf_mapped_dataframe (snd p)"
    by (simp_all add: a)
  note IH = Cons.IH [OF rest]
  show ?case
  proof (cases "deviation_test fa df x y")
    case (Inl e')
    with deviation_test_error_iff [OF wf, of fa x y e'] show ?thesis by (auto simp: a)
  next
    case (Inr dv)
    with deviation_test_error_iff [OF wf, of fa x y IndexError] have "in_domain df x" by auto
    with Inr show ?thesis by (simp add: a IH)
  qed
qed

lemma looked_up_code: "looked_up df x c = (values0 (loc_y_ideal df x) = Inr c)"
proof
  assume "looked_up df x c"
  then obtain pre xc post where z: "zip (col_x df) (col_y_ideal df) = pre @ (xc, c) # post"
    "feq xc x" "\<forall>r\<in>set pre. \<not> feq (fst r) x"
    by (auto simp: looked_up_def)
  from z(3) have "filter (\<lambda>r. feq (fst r) x) pre = []" by (simp add: filter_empty_conv)
  with z(1,2) show "values0 (loc_y_ideal df x) = Inr c" by (simp add: loc_y_ideal_def)
next
  assume "values0 (loc_y_ideal df x) = Inr c"
  then obtain rest where "loc_y_ideal df x = c # rest" by (cases "loc_y_ideal df x") auto
  then obtain r rs where f: "filter (\<lambda>r. feq (fst r) x) (zip (col_x df) (col_y_ideal df)) = r # rs"
    and c: "snd r = c"
    by (auto simp: loc_y_ideal_def map_eq_Cons_conv)
  from f obtain us vs where u: "zip (col_x df) (col_y_ideal df) = us @ r # vs"
    "\<forall>u\<in>set us. \<not> feq (fst u) x" "feq (fst r) x"
    by (auto simp: filter_eq_Cons_iff)
  from u(1) c have "zip (col_x df) (col_y_ideal df) = us @ (fst r, c) # vs" by (cases r) simp
  with u(2,3) show "looked_up df x c" unfolding looked_up_def by blast
qed

lemma set_dropna: "set (dropna col) = {v. Some v \<in> set col}"
proof (induction col)
  case Nil
  then show ?case by simp
next
  case (Cons c col)
  then show ?case by (cases c) auto
qed

lemma series_max_greatest:
  assumes "series_max col = Some m"
  shows "Some m \<in> set col \<and> (\<forall>v. Some v \<in> set col \<longrightarrow> v \<le> m)"
proof -
  from assms obtain v vs where d: "dropna col = v # vs" and m: "m = fold max vs v"
    by (auto simp: series_max_def split: list.splits)
  from m have mx: "m = Max (set (v # vs))" using Max.set_eq_fold [of v vs] by simp
  have "m \<in> set (v # vs)" unfolding mx by (rule Max_in) simp_all
  moreover have "\<forall>u\<in>set (v # vs). u \<le> m" unfolding mx by (simp add: Max_ge)
  ultimately show ?thesis using set_dropna [of col] d by auto
qed

lemma greatest_cell_code: "greatest_cell col m = (series_max col = Some m)"
proof
  assume g: "greatest_cell col m"
  then have mem: "m \<in> set (dropna col)" and ub: "\<forall>u\<in>set (dropna col). u \<le> m"
    by (simp_all add: greatest_cell_def set_dropna)
  from mem obtain v vs where d: "dropna col = v # vs" by (cases "dropna col") auto
  have "Max (set (v # vs)) = m"
  proof (rule Max_eqI)
    show "finite (set (v # vs))" by simp
    show "\<And>u. u \<in> set (v # vs) \<Longrightarrow> u \<le> m" using ub d by auto
    show "m \<in> set (v # vs)" using mem d by simp
  qed
  moreover have "Max (set (v # vs)) = fold max vs v" by (rule Max.set_eq_fold)
  ultimately show "series_max col = Some m" by (simp add: series_max_def d)
next
  assume "series_max col = Some m"
  from series_max_greatest [OF this] show "greatest_cell col m" by (simp add: greatest_cell_def)
qed

text \<open>
  The acceptance rule above is the condition the code tests.
\<close>

lemma eligible_with_code:
  "eligible_with fa df x y dv =
     (deviation_test fa df x y = Inr (Some dv)
      \<and> fge (deviation_train df) (fmul_sqrt2 fa (Some dv)))"
  unfolding eligible_with_def looked_up_code greatest_cell_code deviation_test_def
    deviation_train_def
  by (cases "values0 (loc_y_ideal df x)"; cases "series_max (col_y_diff df)";
      cases "fl_mul_sqrt2 fa dv") auto

lemma eligible_with_unique:
  "eligible_with fa df x y dv \<Longrightarrow> eligible_with fa df x y dv' \<Longrightarrow> dv' = dv"
  by (simp add: eligible_with_code)

lemma profile_step_not_eligible:
  assumes "profile_loop fa x y [(n, df)] st0 = Inr st" and "\<forall>dv. \<not> eligible_with fa df x y dv"
  shows "st = st0"
proof -
  from assms(1) obtain dev where d: "deviation_test fa df x y = Inr dev"
    by (auto split: sum.splits)
  from assms(2) d have "\<not> fge (deviation_train df) (fmul_sqrt2 fa dev)"
    by (cases dev) (simp_all add: eligible_with_code)
  with assms(1) d show ?thesis by simp
qed

lemma profile_step_eligible:
  assumes "eligible_with fa df x y dv"
  shows "profile_loop fa x y [(n, df)] st0 =
     Inr (if existing_max_deviation st0 = None \<or> fgt (Some dv) (existing_max_deviation st0)
          then \<lparr>existing_max_deviation = Some dv, best_fit_function = Some n,
                best_fit_deviation = deviation_train df\<rparr>
          else st0)"
  using assms by (simp add: eligible_with_code)

lemma first_max_eligible_initial: "first_max_eligible fa x y [] initial_fit"
  by (simp add: first_max_eligible_def initial_fit_def)

lemma first_max_eligibleI:
  assumes "best_fit_function st = Some name" and "mds = pre @ (name, df) # post"
    and "eligible_with fa df x y dv" and "existing_max_deviation st = Some dv"
    and "best_fit_deviation st = deviation_train df"
    and "\<forall>p\<in>set mds. \<forall>dv'. eligible_with fa (snd p) x y dv' \<longrightarrow> dv' \<le> dv"
    and "\<forall>p\<in>set pre. \<forall>dv'. eligible_with fa (snd p) x y dv' \<longrightarrow> dv' < dv"
  shows "first_max_eligible fa x y mds st"
  unfolding first_max_eligible_def assms(1) option.case
  by (intro exI conjI) (rule assms)+

lemma first_max_eligible_SomeD:
  assumes "first_max_eligible fa x y mds st" and "best_fit_function st = Some name"
  shows "\<exists>pre df post dv. mds = pre @ (name, df) # post
             \<and> eligible_with fa df x y dv
             \<and> existing_max_deviation st = Some dv
             \<and> best_fit_deviation st = deviation_train df
             \<and> (\<forall>p\<in>set mds. \<forall>dv'. eligible_with fa (snd p) x y dv' \<longrightarrow> dv' \<le> dv)
             \<and> (\<forall>p\<in>set pre. \<forall>dv'. eligible_with fa (snd p) x y dv' \<longrightarrow> dv' < dv)"
  using assms by (simp add: first_max_eligible_def)

lemma first_max_eligible_NoneD:
  assumes "first_max_eligible fa x y mds st" and "best_fit_function st = None"
  shows "existing_max_deviation st = None \<and> best_fit_deviation st = None
           \<and> (\<forall>p\<in>set mds. \<forall>dv. \<not> eligible_with fa (snd p) x y dv)"
  using assms by (simp add: first_max_eligible_def)

lemma first_max_snoc_skip:
  assumes "first_max_eligible fa x y ps st" and "\<forall>dv. \<not> eligible_with fa (snd p) x y dv"
  shows "first_max_eligible fa x y (ps @ [p]) st"
proof (cases "best_fit_function st")
  case None
  with assms show ?thesis by (simp add: first_max_eligible_def)
next
  case (Some name)
  with assms(1) obtain pre df post dv where h: "ps = pre @ (name, df) # post"
    "eligible_with fa df x y dv" "existing_max_deviation st = Some dv"
    "best_fit_deviation st = deviation_train df"
    "\<forall>p\<in>set ps. \<forall>dv'. eligible_with fa (snd p) x y dv' \<longrightarrow> dv' \<le> dv"
    "\<forall>p\<in>set pre. \<forall>dv'. eligible_with fa (snd p) x y dv' \<longrightarrow> dv' < dv"
    by (auto simp: first_max_eligible_def)
  have 1: "ps @ [p] = pre @ (name, df) # (post @ [p])" using h(1) by simp
  have 2: "\<forall>q\<in>set (ps @ [p]). \<forall>dv'. eligible_with fa (snd q) x y dv' \<longrightarrow> dv' \<le> dv"
    using h(5) assms(2) by auto
  from Some 1 h(2,3,4) 2 h(6) show ?thesis by (rule first_max_eligibleI)
qed

lemma first_max_snoc_keep:
  assumes "first_max_eligible fa x y ps st" and "existing_max_deviation st = Some m"
    and "eligible_with fa (snd p) x y dv" and "\<not> dv > m"
  shows "first_max_eligible fa x y (ps @ [p]) st"
proof (cases "best_fit_function st")
  case None
  with assms(1,2) show ?thesis by (simp add: first_max_eligible_def)
next
  case (Some name)
  with assms(1) obtain pre df post dv0 where h: "ps = pre @ (name, df) # post"
    "eligible_with fa df x y dv0" "existing_max_deviation st = Some dv0"
    "best_fit_deviation st = deviation_train df"
    "\<forall>p\<in>set ps. \<forall>dv'. eligible_with fa (snd p) x y dv' \<longrightarrow> dv' \<le> dv0"
    "\<forall>p\<in>set pre. \<forall>dv'. eligible_with fa (snd p) x y dv' \<longrightarrow> dv' < dv0"
    by (auto simp: first_max_eligible_def)
  from h(3) assms(2) have m: "dv0 = m" by simp
  have 1: "ps @ [p] = pre @ (name, df) # (post @ [p])" using h(1) by simp
  have "\<forall>dv'. eligible_with fa (snd p) x y dv' \<longrightarrow> dv' \<le> dv0"
  proof (intro allI impI)
    fix dv' assume "eligible_with fa (snd p) x y dv'"
    with assms(3) have "dv' = dv" by (rule eligible_with_unique)
    with assms(4) m show "dv' \<le> dv0" by simp
  qed
  then have 2: "\<forall>q\<in>set (ps @ [p]). \<forall>dv'. eligible_with fa (snd q) x y dv' \<longrightarrow> dv' \<le> dv0"
    using h(5) by auto
  from Some 1 h(2,3,4) 2 h(6) show ?thesis by (rule first_max_eligibleI)
qed

lemma first_max_snoc_new:
  assumes "first_max_eligible fa x y ps st" and "eligible_with fa df x y dv"
    and "existing_max_deviation st = None \<or> (\<exists>m. existing_max_deviation st = Some m \<and> dv > m)"
  shows "first_max_eligible fa x y (ps @ [(n, df)])
           \<lparr>existing_max_deviation = Some dv, best_fit_function = Some n,
            best_fit_deviation = deviation_train df\<rparr>"
proof -
  have before: "\<forall>p\<in>set ps. \<forall>dv'. eligible_with fa (snd p) x y dv' \<longrightarrow> dv' < dv"
  proof (cases "best_fit_function st")
    case None
    with assms(1) show ?thesis by (simp add: first_max_eligible_def)
  next
    case (Some name)
    with assms(1) obtain dv0 where h: "existing_max_deviation st = Some dv0"
      "\<forall>p\<in>set ps. \<forall>dv'. eligible_with fa (snd p) x y dv' \<longrightarrow> dv' \<le> dv0"
      by (auto simp: first_max_eligible_def)
    with assms(3) have "dv0 < dv" by auto
    with h(2) show ?thesis by fastforce
  qed
  have 1: "ps @ [(n, df)] = ps @ (n, df) # []" by simp
  have 2: "\<forall>q\<in>set (ps @ [(n, df)]). \<forall>dv'. eligible_with fa (snd q) x y dv' \<longrightarrow> dv' \<le> dv"
  proof (intro ballI allI impI)
    fix q dv' assume q: "q \<in> set (ps @ [(n, df)])" and e: "eligible_with fa (snd q) x y dv'"
    from q have "q \<in> set ps \<or> q = (n, df)" by auto
    then show "dv' \<le> dv"
    proof
      assume "q \<in> set ps"
      with before e have "dv' < dv" by blast
      then show ?thesis by simp
    next
      assume "q = (n, df)"
      with e have "eligible_with fa df x y dv'" by simp
      with assms(2) have "dv' = dv" by (rule eligible_with_unique)
      then show ?thesis by simp
    qed
  qed
  show ?thesis
    by (rule first_max_eligibleI [OF _ 1 assms(2) _ _ 2 before]) simp_all
qed

lemma profile_loop_first_max:
  "profile_loop fa x y mds initial_fit = Inr st \<Longrightarrow> first_max_eligible fa x y mds st"
proof (induction mds arbitrary: st rule: rev_induct)
  case Nil
  then show ?case by (simp add: first_max_eligible_initial)
next
  case (snoc p ps)
  obtain n df where p: "p = (n, df)" by (cases p)
  from snoc.prems obtain st0 where
    mid: "profile_loop fa x y ps initial_fit = Inr st0"
    and last: "profile_loop fa x y [(n, df)] st0 = Inr st"
    by (auto simp: profile_loop_snoc p split: sum.splits)
  from snoc.IH [OF mid] have inv: "first_max_eligible fa x y ps st0" .
  show ?case
  proof (cases "\<exists>dv. eligible_with fa df x y dv")
    case False
    then have "\<forall>dv. \<not> eligible_with fa df x y dv" by simp
    with last have "st = st0" by (rule profile_step_not_eligible)
    with inv False show ?thesis by (simp add: first_max_snoc_skip p)
  next
    case True
    then obtain dv where e: "eligible_with fa df x y dv" by blast
    note step = profile_step_eligible [OF e, of n st0]
    show ?thesis
    proof (cases "existing_max_deviation st0")
      case None
      with step last have "st = \<lparr>existing_max_deviation = Some dv, best_fit_function = Some n,
                best_fit_deviation = deviation_train df\<rparr>" by simp
      with first_max_snoc_new [OF inv e, of n] None show ?thesis by (simp add: p)
    next
      case (Some m)
      show ?thesis
      proof (cases "dv > m")
        case True
        with step last Some have "st = \<lparr>existing_max_deviation = Some dv,
            best_fit_function = Some n, best_fit_deviation = deviation_train df\<rparr>" by simp
        with first_max_snoc_new [OF inv e, of n] Some True show ?thesis by (simp add: p)
      next
        case False
        with step last Some have "st = st0" by simp
        with first_max_snoc_keep [OF inv Some, of p dv] e False show ?thesis by (simp add: p)
      qed
    qed
  qed
qed

lemma test_loop_rows:
  "test_loop fa tests mds out = Inr rows \<Longrightarrow>
     \<exists>new. rows = out @ new \<and> list_all2 (classified fa mds) tests new"
proof (induction tests arbitrary: out)
  case Nil
  then show ?case by simp
next
  case (Cons t tests)
  obtain x y where t: "t = (x, y)" by (cases t)
  from Cons.prems obtain st where
    st: "profile_loop fa x y mds initial_fit = Inr st"
    and rest: "test_loop fa tests mds (out @ [(x, y, best_fit_deviation st, best_fit_function st)]) = Inr rows"
    by (auto simp: t split: sum.splits)
  from Cons.IH [OF rest] obtain new where
    new: "rows = (out @ [(x, y, best_fit_deviation st, best_fit_function st)]) @ new"
    "list_all2 (classified fa mds) tests new" by blast
  have "classified fa mds t (x, y, best_fit_deviation st, best_fit_function st)"
    using st by (simp add: classified_def t)
  with new show ?case
    by (intro exI [of _ "(x, y, best_fit_deviation st, best_fit_function st) # new"]) simp
qed

lemma map_test_data_rows:
  "map_test_data fa tests mds = Inr rows \<Longrightarrow> list_all2 (classified fa mds) tests rows"
  by (auto simp: map_test_data_def dest: test_loop_rows)

lemma map_test_data_row:
  assumes "map_test_data fa tests mds = Inr rows" and "(x, y, d, f) \<in> set rows"
  shows "\<exists>st. (x, y) \<in> set tests \<and> profile_loop fa x y mds initial_fit = Inr st
           \<and> d = best_fit_deviation st \<and> f = best_fit_function st"
proof -
  from map_test_data_rows [OF assms(1)] have l: "list_all2 (classified fa mds) tests rows" .
  from assms(2) obtain k where k: "k < length rows" "rows ! k = (x, y, d, f)"
    by (auto simp: in_set_conv_nth)
  from l k(1) have "classified fa mds (tests ! k) (rows ! k)" and kt: "k < length tests"
    by (simp_all add: list_all2_conv_all_nth)
  with k(2) obtain st where "profile_loop fa (fst (tests ! k)) (snd (tests ! k)) mds initial_fit = Inr st"
    "(x, y, d, f) = (fst (tests ! k), snd (tests ! k), best_fit_deviation st, best_fit_function st)"
    by (auto simp: classified_def)
  moreover from this kt have "(x, y) \<in> set tests" by (metis nth_mem prod.collapse prod.inject)
  ultimately show ?thesis by auto
qed

lemma test_loop_error_iff:
  assumes "\<forall>p\<in>set mds. wf_mapped_dataframe (snd p)"
  shows "(test_loop fa tests mds out = Inl e) =
     (e = IndexError \<and> (\<exists>t\<in>set tests. \<exists>p\<in>set mds. \<not> in_domain (snd p) (fst t)))"
proof (induction tests arbitrary: out)
  case Nil
  then show ?case by simp
next
  case (Cons t tests)
  obtain x y where t: "t = (x, y)" by (cases t)
  show ?case
  proof (cases "profile_loop fa x y mds initial_fit")
    case (Inl e')
    with profile_loop_error_iff [OF assms, of fa x y initial_fit e'] show ?thesis
      by (auto simp: t)
  next
    case (Inr st)
    with profile_loop_error_iff [OF assms, of fa x y initial_fit IndexError]
    have "\<not> (\<exists>p\<in>set mds. \<not> in_domain (snd p) x)" by auto
    with Inr show ?thesis by (simp add: t Cons.IH)
  qed
qed

lemma rows_in_input_order:
  assumes "map_test_data fa tests mds = Inr rows"
  shows "map (\<lambda>r. (fst r, fst (snd r))) rows = tests"
proof -
  from map_test_data_rows [OF assms] have "list_all2 (classified fa mds) tests rows" .
  then show ?thesis
    by (induction rule: list_all2_induct) (auto simp: classified_def)
qed

lemma scenario_selection:
  "map_training_to_ideal_functions unrounded scenario_training scenario_ideal
     = Inr [(''y1'', Some ''ideal1'')]"
  by (simp add: scenario_training_def scenario_ideal_def map_training_to_ideal_functions_def
      set_index_def columns_def training_columns_def getitem_def squared_diff_def np_sub_def
      unrounded_def small_no_overflow)

lemma scenario_profiles:
  "create_mapped_dataframes unrounded [(''y1'', Some ''ideal1'')] scenario_ideal scenario_training
     = Inr [(''ideal1'', scenario_profile)]"
  by (simp add: scenario_training_def scenario_ideal_def scenario_profile_def
      create_mapped_dataframes_def columns_def getitem_def build_mapped_dataframe_def
      reindex_def upt_rec Let_def unrounded_def small_no_overflow)

lemma scenario_tau: "deviation_train scenario_profile = num (- 1 / 20)"
  by (simp add: deviation_train_def series_max_def scenario_profile_def)

lemma scenario_on_curve:
  "map_test_data unrounded [(num 1, num (1 / 20))] [(''ideal1'', scenario_profile)]
     = Inr [(num 1, num (1 / 20), NaN, None)]"
  by (simp add: map_test_data_def deviation_test_def loc_y_ideal_def deviation_train_def
      series_max_def initial_fit_def scenario_profile_def unrounded_def small_no_overflow)

lemma binary_selection:
  "map_training_to_ideal_functions unrounded binary_training binary_ideal
     = Inr [(''y1'', Some ''ideal1'')]"
  by (simp add: binary_training_def binary_ideal_def map_training_to_ideal_functions_def
      set_index_def columns_def training_columns_def getitem_def squared_diff_def np_sub_def
      unrounded_def small_no_overflow)

lemma binary_profiles:
  "create_mapped_dataframes unrounded [(''y1'', Some ''ideal1'')] binary_ideal binary_training
     = Inr [(''ideal1'', binary_profile)]"
  by (simp add: binary_training_def binary_ideal_def binary_profile_def
      create_mapped_dataframes_def columns_def getitem_def build_mapped_dataframe_def
      reindex_def upt_rec Let_def unrounded_def small_no_overflow)

lemma binary_tau: "deviation_train binary_profile = num (- 1 / 16)"
  by (simp add: deviation_train_def series_max_def binary_profile_def)

lemma binary_greatest_abs:
  "series_max (map fabs (col_y_diff binary_profile)) = num (1 / 16)"
  by (simp add: series_max_def binary_profile_def)

lemma binary_on_curve:
  "map_test_data unrounded [(num 1, num (1 / 16))] [(''ideal1'', binary_profile)]
     = Inr [(num 1, num (1 / 16), NaN, None)]"
  by (simp add: map_test_data_def deviation_test_def loc_y_ideal_def deviation_train_def
      series_max_def initial_fit_def binary_profile_def unrounded_def small_no_overflow)

lemma scenario_missing_x:
  "map_test_data unrounded [(num 99, num 1)] [(''ideal1'', scenario_profile)] = Inl IndexError"
  by (simp add: map_test_data_def deviation_test_def loc_y_ideal_def scenario_profile_def)

text \<open>
  Claim C3. A profile is an eligible match exactly when its training deviation \<open>tau\<close>,
  the maximum of its y\_diff column, is at least the test deviation multiplied by
  \<^verbatim>\<open>np.sqrt(2)\<close>, equality included. Against a single profile whose y\_ideal at the test
  point's x is \<open>c\<close>, with \<open>bound\<close> the product the code computes from the test deviation
  \<open>|y - c|\<close>: the test point is assigned to the profile when \<open>bound \<le> tau\<close>, and is
  unassigned when \<open>bound > tau\<close>, when the y\_diff column has no maximum (all its cells
  are NaN) or when the product is NaN.
\<close>

theorem C3_acceptance_rule:
  assumes lookup: "looked_up df x c"
    and bound: "fmul_sqrt2 fa (fabs (fsub fa y c)) = bound"
  shows "(\<forall>t b. greatest_cell (col_y_diff df) t \<and> bound = Some b \<and> b \<le> t
            \<longrightarrow> map_test_data fa [(x, y)] [(name, df)] = Inr [(x, y, Some t, Some name)])
       \<and> (\<forall>t b. greatest_cell (col_y_diff df) t \<and> bound = Some b \<and> \<not> b \<le> t
            \<longrightarrow> map_test_data fa [(x, y)] [(name, df)] = Inr [(x, y, NaN, None)])
       \<and> ((\<forall>t. \<not> greatest_cell (col_y_diff df) t) \<or> bound = NaN
            \<longrightarrow> map_test_data fa [(x, y)] [(name, df)] = Inr [(x, y, NaN, None)])"
proof -
  define tau where "tau = deviation_train df"
  from lookup have l: "values0 (loc_y_ideal df x) = Inr c" by (simp add: looked_up_code)
  have g: "greatest_cell (col_y_diff df) t = (tau = Some t)" for t
    by (simp add: greatest_cell_code tau_def deviation_train_def)
  have res: "map_test_data fa [(x, y)] [(name, df)]
      = Inr [(x, y, if fge tau bound then tau else NaN, if fge tau bound then Some name else None)]"
    using l bound by (simp add: map_test_data_def deviation_test_def initial_fit_def tau_def)
  show ?thesis
  proof (intro conjI allI impI)
    fix t b assume "greatest_cell (col_y_diff df) t \<and> bound = Some b \<and> b \<le> t"
    then show "map_test_data fa [(x, y)] [(name, df)] = Inr [(x, y, Some t, Some name)]"
      by (simp add: res g)
  next
    fix t b assume "greatest_cell (col_y_diff df) t \<and> bound = Some b \<and> \<not> b \<le> t"
    then show "map_test_data fa [(x, y)] [(name, df)] = Inr [(x, y, NaN, None)]"
      by (simp add: res g)
  next
    assume "(\<forall>t. \<not> greatest_cell (col_y_diff df) t) \<or> bound = NaN"
    then have "tau = NaN \<or> bound = NaN" by (simp add: g)
    then have "\<not> fge tau bound" by (cases tau; cases bound) auto
    then show "map_test_data fa [(x, y)] [(name, df)] = Inr [(x, y, NaN, None)]"
      by (simp add: res)
  qed
qed

text \<open>
  The boundary: the test point (0, -1) against a candidate that is 0 there has the test
  deviation 1 and the product \<open>np_sqrt2\<close>, in float64 as well; a profile whose largest
  y\_diff cell is exactly that float accepts the point, a profile whose largest cell is
  the next float below it does not, and neither does a profile whose cells are all NaN.
\<close>

theorem C3_acceptance_rule_witness:
  "looked_up \<lparr>col_x = [num 0, num 1], col_y_ideal = [num 0, num 0],
        col_y_train = [num (- 1), num (- np_sqrt2)],
        col_y_diff = [num 1, num np_sqrt2]\<rparr> (num 0) (num 0)
   \<and> greatest_cell [num 1, num np_sqrt2] (Fin np_sqrt2)
   \<and> fmul_sqrt2 unrounded (fabs (fsub unrounded (num (- 1)) (num 0))) = num np_sqrt2
   \<and> map_test_data unrounded [(num 0, num (- 1))]
        [(''f'', \<lparr>col_x = [num 0, num 1], col_y_ideal = [num 0, num 0],
            col_y_train = [num (- 1), num (- np_sqrt2)],
            col_y_diff = [num 1, num np_sqrt2]\<rparr>)]
       = Inr [(num 0, num (- 1), num np_sqrt2, Some ''f'')]
   \<and> greatest_cell [num 1, num (np_sqrt2 - 1 / 2 ^ 52)] (Fin (np_sqrt2 - 1 / 2 ^ 52))
   \<and> map_test_data unrounded [(num 0, num (- 1))]
        [(''f'', \<lparr>col_x = [num 0, num 1], col_y_ideal = [num 0, num 0],
            col_y_train = [num (- 1), num (- (np_sqrt2 - 1 / 2 ^ 52))],
            col_y_diff = [num 1, num (np_sqrt2 - 1 / 2 ^ 52)]\<rparr>)]
       = Inr [(num 0, num (- 1), NaN, None)]
   \<and> map_test_data unrounded [(num 0, num (- 1))]
        [(''f'', \<lparr>col_x = [num 0, num 1], col_y_ideal = [num 0, num 0],
            col_y_train = [NaN, NaN], col_y_diff = [NaN, NaN]\<rparr>)]
       = Inr [(num 0, num (- 1), NaN, None)]"
proof -
  let ?df = "\<lparr>col_x = [num 0, num 1], col_y_ideal = [num 0, num 0],
        col_y_train = [num (- 1), num (- np_sqrt2)],
        col_y_diff = [num 1, num np_sqrt2]\<rparr>"
  let ?dg = "\<lparr>col_x = [num 0, num 1], col_y_ideal = [num 0, num 0],
        col_y_train = [num (- 1), num (- (np_sqrt2 - 1 / 2 ^ 52))],
        col_y_diff = [num 1, num (np_sqrt2 - 1 / 2 ^ 52)]\<rparr>"
  let ?dn = "\<lparr>col_x = [num 0, num 1], col_y_ideal = [num 0, num 0],
        col_y_train = [NaN, NaN], col_y_diff = [NaN, NaN]\<rparr>"
  have h1: "looked_up ?df (num 0) (num 0)" by (simp add: looked_up_code loc_y_ideal_def)
  have g1: "looked_up ?dg (num 0) (num 0)" by (simp add: looked_up_code loc_y_ideal_def)
  have n1: "looked_up ?dn (num 0) (num 0)" by (simp add: looked_up_code loc_y_ideal_def)
  have h2: "greatest_cell [num 1, num np_sqrt2] (Fin np_sqrt2)"
    by (auto simp: greatest_cell_def np_sqrt2_def)
  have g2: "greatest_cell [num 1, num (np_sqrt2 - 1 / 2 ^ 52)] (Fin (np_sqrt2 - 1 / 2 ^ 52))"
    by (auto simp: greatest_cell_def np_sqrt2_def)
  have n2: "\<forall>t. \<not> greatest_cell [NaN, NaN] t" by (simp add: greatest_cell_def)
  have h3: "fmul_sqrt2 unrounded (fabs (fsub unrounded (num (- 1)) (num 0))) = num np_sqrt2"
    by (simp add: unrounded_def overflow_def np_sqrt2_def)
  from C3_acceptance_rule [OF h1 h3, of "''f''"] h2
  have a: "map_test_data unrounded [(num 0, num (- 1))] [(''f'', ?df)]
       = Inr [(num 0, num (- 1), num np_sqrt2, Some ''f'')]" by simp
  have lt: "\<not> Fin np_sqrt2 \<le> Fin (np_sqrt2 - 1 / 2 ^ 52)" by simp
  from C3_acceptance_rule [OF g1 h3, of "''f''"]
  have "\<forall>t b. greatest_cell (col_y_diff ?dg) t \<and> num np_sqrt2 = Some b \<and> \<not> b \<le> t
            \<longrightarrow> map_test_data unrounded [(num 0, num (- 1))] [(''f'', ?dg)]
                  = Inr [(num 0, num (- 1), NaN, None)]"
    by (rule conjunct1 [OF conjunct2])
  then have "greatest_cell (col_y_diff ?dg) (Fin (np_sqrt2 - 1 / 2 ^ 52))
        \<and> num np_sqrt2 = Some (Fin np_sqrt2) \<and> \<not> Fin np_sqrt2 \<le> Fin (np_sqrt2 - 1 / 2 ^ 52)
      \<longrightarrow> map_test_data unrounded [(num 0, num (- 1))] [(''f'', ?dg)]
                  = Inr [(num 0, num (- 1), NaN, None)]"
    by (rule allE [OF allE])
  with g2 lt
  have b: "map_test_data unrounded [(num 0, num (- 1))] [(''f'', ?dg)]
       = Inr [(num 0, num (- 1), NaN, None)]" by simp
  from C3_acceptance_rule [OF n1 h3, of "''f''"] n2
  have c: "map_test_data unrounded [(num 0, num (- 1))] [(''f'', ?dn)]
       = Inr [(num 0, num (- 1), NaN, None)]" by simp
  from h1 h2 h3 a g2 b c show ?thesis by (intro conjI)
qed

text \<open>
  Claim C5. A test point with an eligible profile is assigned to the eligible profile of
  largest test deviation, and among eligible profiles of equal largest test deviation to
  the first one in the order of the dictionary; it is unassigned only when no profile is
  eligible. The test deviations are the floats the code computes.
\<close>

theorem C5_assigns_first_largest_eligible:
  assumes "map_test_data fa tests mds = Inr rows" and "(x, y, d, f) \<in> set rows"
  shows "largest_eligible_first fa x y mds f"
proof -
  from map_test_data_row [OF assms] obtain st where
    st: "profile_loop fa x y mds initial_fit = Inr st" and f: "f = best_fit_function st" by blast
  from profile_loop_first_max [OF st] have inv: "first_max_eligible fa x y mds st" .
  show ?thesis
  proof (cases f)
    case None
    with f have "best_fit_function st = None" by simp
    from first_max_eligible_NoneD [OF inv this] show ?thesis
      by (simp add: largest_eligible_first_def None)
  next
    case (Some name)
    with f have "best_fit_function st = Some name" by simp
    from first_max_eligible_SomeD [OF inv this] obtain pre df post dv where
      "mds = pre @ (name, df) # post" "eligible_with fa df x y dv"
      "\<forall>p\<in>set mds. \<forall>dv'. eligible_with fa (snd p) x y dv' \<longrightarrow> dv' \<le> dv"
      "\<forall>p\<in>set pre. \<forall>dv'. eligible_with fa (snd p) x y dv' \<longrightarrow> dv' < dv"
      by blast
    then show ?thesis unfolding largest_eligible_first_def Some option.case by blast
  qed
qed

theorem C5_assigns_first_largest_eligible_witness:
  "map_test_data unrounded [(num 0, num 0)]
      [(''a'', \<lparr>col_x = [num 0], col_y_ideal = [num 0], col_y_train = [num (-5)], col_y_diff = [num 5]\<rparr>),
       (''b'', \<lparr>col_x = [num 0], col_y_ideal = [num 1], col_y_train = [num (-3)], col_y_diff = [num 4]\<rparr>),
       (''c'', \<lparr>col_x = [num 0], col_y_ideal = [num (-1)], col_y_train = [num (-4)], col_y_diff = [num 3]\<rparr>)]
     = Inr [(num 0, num 0, num 4, Some ''b'')]
   \<and> (num 0, num 0, num 4, Some ''b'') \<in> set [(num 0, num 0, num 4, Some ''b'')]
   \<and> largest_eligible_first unrounded (num 0) (num 0)
      [(''a'', \<lparr>col_x = [num 0], col_y_ideal = [num 0], col_y_train = [num (-5)], col_y_diff = [num 5]\<rparr>),
       (''b'', \<lparr>col_x = [num 0], col_y_ideal = [num 1], col_y_train = [num (-3)], col_y_diff = [num 4]\<rparr>),
       (''c'', \<lparr>col_x = [num 0], col_y_ideal = [num (-1)], col_y_train = [num (-4)], col_y_diff = [num 3]\<rparr>)]
      (Some ''b'')"
proof -
  let ?mds = "[(''a'', \<lparr>col_x = [num 0], col_y_ideal = [num 0], col_y_train = [num (-5)], col_y_diff = [num 5]\<rparr>),
       (''b'', \<lparr>col_x = [num 0], col_y_ideal = [num 1], col_y_train = [num (-3)], col_y_diff = [num 4]\<rparr>),
       (''c'', \<lparr>col_x = [num 0], col_y_ideal = [num (-1)], col_y_train = [num (-4)], col_y_diff = [num 3]\<rparr>)]"
  have ok: "map_test_data unrounded [(num 0, num 0)] ?mds = Inr [(num 0, num 0, num 4, Some ''b'')]"
    by (simp add: map_test_data_def deviation_test_def loc_y_ideal_def deviation_train_def
      series_max_def initial_fit_def unrounded_def overflow_def np_sqrt2_def)
  have row: "(num 0, num 0, num 4, Some ''b'') \<in> set [(num 0, num 0, num 4, Some ''b'')]"
    by simp
  from C5_assigns_first_largest_eligible [OF ok row] ok row show ?thesis by simp
qed

text \<open>
  Claim C8. The Deviation of an output row is the training deviation of the assigned
  profile, the maximum of its y\_diff column: a cell of that column that no other cell
  exceeds, NaN cells apart. It is NaN for an unassigned test point. It is not the test
  point's own deviation: in the example below the assigned point has the test deviation 0
  and its row records 3, the largest of the cells 1, 3 and 2.
\<close>

theorem C8_deviation_is_training_deviation:
  assumes "map_test_data fa tests mds = Inr rows" and "(x, y, d, f) \<in> set rows"
  shows "case f of
           None \<Rightarrow> d = NaN
         | Some name \<Rightarrow>
             (\<exists>df m. (name, df) \<in> set mds \<and> d = Some m \<and> greatest_cell (col_y_diff df) m)"
proof -
  from map_test_data_row [OF assms] obtain st where
    st: "profile_loop fa x y mds initial_fit = Inr st" and f: "f = best_fit_function st"
    and d: "d = best_fit_deviation st" by blast
  from profile_loop_first_max [OF st] have inv: "first_max_eligible fa x y mds st" .
  show ?thesis
  proof (cases f)
    case None
    with f have "best_fit_function st = None" by simp
    from first_max_eligible_NoneD [OF inv this] d show ?thesis by (simp add: None)
  next
    case (Some name)
    with f have "best_fit_function st = Some name" by simp
    from first_max_eligible_SomeD [OF inv this] obtain pre df post dv where
      m: "mds = pre @ (name, df) # post" and e: "eligible_with fa df x y dv"
      and b: "best_fit_deviation st = deviation_train df"
      by blast
    from e obtain t where t: "deviation_train df = Some t"
      by (cases "deviation_train df") (auto simp: eligible_with_code)
    then have "greatest_cell (col_y_diff df) t"
      by (simp add: deviation_train_def greatest_cell_code)
    with m d b t
    have "(name, df) \<in> set mds \<and> d = Some t \<and> greatest_cell (col_y_diff df) t" by simp
    then show ?thesis unfolding Some option.case by blast
  qed
qed

theorem C8_deviation_is_training_deviation_witness:
  "map_test_data unrounded [(num 2, num 3), (num 2, num 7)]
      [(''a'', \<lparr>col_x = [num 1, num 2, num 3], col_y_ideal = [num 2, num 3, num 4],
               col_y_train = [num 1, num 0, num 2], col_y_diff = [num 1, num 3, num 2]\<rparr>)]
     = Inr [(num 2, num 3, num 3, Some ''a''), (num 2, num 7, NaN, None)]
   \<and> (num 2, num 3, num 3, Some ''a'')
        \<in> set [(num 2, num 3, num 3, Some ''a''), (num 2, num 7, NaN, None)]
   \<and> deviation_test unrounded \<lparr>col_x = [num 1, num 2, num 3], col_y_ideal = [num 2, num 3, num 4],
               col_y_train = [num 1, num 0, num 2], col_y_diff = [num 1, num 3, num 2]\<rparr>
        (num 2) (num 3) = Inr (num 0)
   \<and> (\<exists>df m. (''a'', df) \<in> set [(''a'', \<lparr>col_x = [num 1, num 2, num 3],
               col_y_ideal = [num 2, num 3, num 4],
               col_y_train = [num 1, num 0, num 2], col_y_diff = [num 1, num 3, num 2]\<rparr>)]
          \<and> num 3 = Some m \<and> greatest_cell (col_y_diff df) m)
   \<and> greatest_cell [num 1, num 3, num 2] (Fin 3)"
proof -
  let ?df = "\<lparr>col_x = [num 1, num 2, num 3], col_y_ideal = [num 2, num 3, num 4],
               col_y_train = [num 1, num 0, num 2], col_y_diff = [num 1, num 3, num 2]\<rparr>"
  have ok: "map_test_data unrounded [(num 2, num 3), (num 2, num 7)] [(''a'', ?df)]
      = Inr [(num 2, num 3, num 3, Some ''a''), (num 2, num 7, NaN, None)]"
    by (simp add: map_test_data_def deviation_test_def loc_y_ideal_def deviation_train_def
      series_max_def initial_fit_def unrounded_def overflow_def np_sqrt2_def)
  have row: "(num 2, num 3, num 3, Some ''a'')
        \<in> set [(num 2, num 3, num 3, Some ''a''), (num 2, num 7, NaN, None)]"
    by simp
  have dev: "deviation_test unrounded ?df (num 2) (num 3) = Inr (num 0)"
    by (simp add: deviation_test_def loc_y_ideal_def unrounded_def overflow_def)
  have cell: "greatest_cell [num 1, num 3, num 2] (Fin 3)"
    by (auto simp: greatest_cell_def)
  from C8_deviation_is_training_deviation [OF ok row]
  have "\<exists>df m. (''a'', df) \<in> set [(''a'', ?df)]
          \<and> num 3 = Some m \<and> greatest_cell (col_y_diff df) m" by simp
  with ok row dev cell show ?thesis by (intro conjI)
qed

text \<open>
  Claim C2, as the code has it. A test point whose x is missing from the x column of a
  profile is not skipped: \<^verbatim>\<open>.values[0]\<close> on the empty selection raises IndexError and the
  whole classification ends with it. So a test point whose x matches no profile makes the
  classification fail as soon as there is a profile; with no profile at all every test
  point is unassigned. When the x of every test point occurs in every profile the
  classifier returns one row per test point, in the order of the test points.
\<close>

theorem C2_missing_x_raises_IndexError:
  assumes wf: "\<forall>p\<in>set mds. wf_mapped_dataframe (snd p)"
  shows "((\<exists>t\<in>set tests. \<exists>p\<in>set mds. \<not> in_domain (snd p) (fst t))
            \<longrightarrow> map_test_data fa tests mds = Inl IndexError)
       \<and> ((\<exists>t\<in>set tests. \<forall>p\<in>set mds. \<not> in_domain (snd p) (fst t)) \<and> mds \<noteq> []
            \<longrightarrow> map_test_data fa tests mds = Inl IndexError)
       \<and> (\<not> (\<exists>t\<in>set tests. \<exists>p\<in>set mds. \<not> in_domain (snd p) (fst t))
            \<longrightarrow> (\<exists>rows. map_test_data fa tests mds = Inr rows
                   \<and> map (\<lambda>r. (fst r, fst (snd r))) rows = tests))
       \<and> map_test_data fa tests [] = Inr (map (\<lambda>t. (fst t, snd t, NaN, None)) tests)"
proof (intro conjI impI)
  assume "\<exists>t\<in>set tests. \<exists>p\<in>set mds. \<not> in_domain (snd p) (fst t)"
  then show "map_test_data fa tests mds = Inl IndexError"
    using test_loop_error_iff [OF wf, of fa tests "[]" IndexError] by (simp add: map_test_data_def)
next
  assume a: "(\<exists>t\<in>set tests. \<forall>p\<in>set mds. \<not> in_domain (snd p) (fst t)) \<and> mds \<noteq> []"
  then obtain p where "p \<in> set mds" by (cases mds) auto
  with a have "\<exists>t\<in>set tests. \<exists>p\<in>set mds. \<not> in_domain (snd p) (fst t)" by blast
  then show "map_test_data fa tests mds = Inl IndexError"
    using test_loop_error_iff [OF wf, of fa tests "[]" IndexError] by (simp add: map_test_data_def)
next
  assume no: "\<not> (\<exists>t\<in>set tests. \<exists>p\<in>set mds. \<not> in_domain (snd p) (fst t))"
  show "\<exists>rows. map_test_data fa tests mds = Inr rows
                   \<and> map (\<lambda>r. (fst r, fst (snd r))) rows = tests"
  proof (cases "map_test_data fa tests mds")
    case (Inl e)
    with test_loop_error_iff [OF wf, of fa tests "[]" e] no show ?thesis
      by (simp add: map_test_data_def)
  next
    case (Inr rows)
    from rows_in_input_order [OF Inr] Inr show ?thesis by simp
  qed
next
  have "test_loop fa tests [] out = Inr (out @ map (\<lambda>t. (fst t, snd t, NaN, None)) tests)" for out
    by (induction tests arbitrary: out) (auto simp: initial_fit_def)
  then show "map_test_data fa tests [] = Inr (map (\<lambda>t. (fst t, snd t, NaN, None)) tests)"
    by (simp add: map_test_data_def)
qed

theorem C2_missing_x_raises_IndexError_witness:
  "wf_mapped_dataframe \<lparr>col_x = [num 1, num 2], col_y_ideal = [num 1, num 2],
        col_y_train = [num 0, num 0], col_y_diff = [num 1, num 2]\<rparr>
   \<and> \<not> in_domain \<lparr>col_x = [num 1, num 2], col_y_ideal = [num 1, num 2],
        col_y_train = [num 0, num 0], col_y_diff = [num 1, num 2]\<rparr> (num 3)
   \<and> map_test_data unrounded [(num 1, num 0), (num 3, num 0)]
        [(''a'', \<lparr>col_x = [num 1, num 2], col_y_ideal = [num 1, num 2],
        col_y_train = [num 0, num 0], col_y_diff = [num 1, num 2]\<rparr>)] = Inl IndexError
   \<and> (\<exists>rows. map_test_data unrounded [(num 2, num 9), (num 1, num 1)]
        [(''a'', \<lparr>col_x = [num 1, num 2], col_y_ideal = [num 1, num 2],
        col_y_train = [num 0, num 0], col_y_diff = [num 1, num 2]\<rparr>)] = Inr rows
        \<and> map (\<lambda>r. (fst r, fst (snd r))) rows = [(num 2, num 9), (num 1, num 1)])"
proof -
  let ?A = "\<lparr>col_x = [num 1, num 2], col_y_ideal = [num 1, num 2],
        col_y_train = [num 0, num 0], col_y_diff = [num 1, num 2]\<rparr>"
  have wf1: "wf_mapped_dataframe ?A" by (simp add: wf_mapped_dataframe_def)
  then have wf: "\<forall>p\<in>set [(''a'', ?A)]. wf_mapped_dataframe (snd p)" by simp
  have out: "\<not> in_domain ?A (num 3)" and in1: "in_domain ?A (num 1)" and in2: "in_domain ?A (num 2)"
    by (simp_all add: in_domain_def)
  from out have miss: "\<exists>t\<in>set [(num 1, num 0), (num 3, num 0)]. \<exists>p\<in>set [(''a'', ?A)].
      \<not> in_domain (snd p) (fst t)" by simp
  from in1 in2 have ok: "\<not> (\<exists>t\<in>set [(num 2, num 9), (num 1, num 1)]. \<exists>p\<in>set [(''a'', ?A)].
      \<not> in_domain (snd p) (fst t))" by simp
  from C2_missing_x_raises_IndexError [OF wf, of "[(num 1, num 0), (num 3, num 0)]" unrounded] miss
  have 1: "map_test_data unrounded [(num 1, num 0), (num 3, num 0)] [(''a'', ?A)] = Inl IndexError"
    by blast
  from C2_missing_x_raises_IndexError [OF wf, of "[(num 2, num 9), (num 1, num 1)]" unrounded] ok
  have 2: "\<exists>rows. map_test_data unrounded [(num 2, num 9), (num 1, num 1)] [(''a'', ?A)] = Inr rows
        \<and> map (\<lambda>r. (fst r, fst (snd r))) rows = [(num 2, num 9), (num 1, num 1)]"
    by blast
  from wf1 out 1 2 show ?thesis by (intro conjI)
qed

text \<open>
  The claim as the specification states it fails on scenario D: the test point (99, 1)
  against the profile of scenario B is not classified as unassigned.
\<close>

theorem C2_counterexample:
  "map_test_data unrounded [(num 99, num 1)] [(''ideal1'', scenario_profile)] = Inl IndexError"
  by (rule scenario_missing_x)

text \<open>
  Claim C1 on the code. The training deviation the classifier uses is the maximum of the
  signed residuals, not of their absolute values: in scenario B every residual is -0.05
  (in float64 within 1e-16 of it, and negative), and the classifier works with -0.05
  where the claim has 0.05. No test point can then be eligible, not even one that lies on
  the ideal function. The same holds, exactly in float64, with binary fractions: every
  residual is -0.0625, the largest absolute residual is 0.0625, the classifier works with
  -0.0625, and the point (1, 0.0625) on the ideal function is unassigned.
\<close>

theorem C1_training_tolerance_is_signed_maximum:
  "map_training_to_ideal_functions unrounded scenario_training scenario_ideal
     = Inr [(''y1'', Some ''ideal1'')]
   \<and> create_mapped_dataframes unrounded [(''y1'', Some ''ideal1'')] scenario_ideal scenario_training
       = Inr [(''ideal1'', scenario_profile)]
   \<and> deviation_train scenario_profile = num (- 1 / 20)
   \<and> map_test_data unrounded [(num 1, num (1 / 20))] [(''ideal1'', scenario_profile)]
       = Inr [(num 1, num (1 / 20), NaN, None)]
   \<and> map_training_to_ideal_functions unrounded binary_training binary_ideal
       = Inr [(''y1'', Some ''ideal1'')]
   \<and> create_mapped_dataframes unrounded [(''y1'', Some ''ideal1'')] binary_ideal binary_training
       = Inr [(''ideal1'', binary_profile)]
   \<and> series_max (map fabs (col_y_diff binary_profile)) = num (1 / 16)
   \<and> deviation_train binary_profile = num (- 1 / 16)
   \<and> map_test_data unrounded [(num 1, num (1 / 16))] [(''ideal1'', binary_profile)]
       = Inr [(num 1, num (1 / 16), NaN, None)]"
  using scenario_selection scenario_profiles scenario_tau scenario_on_curve
    binary_selection binary_profiles binary_greatest_abs binary_tau binary_on_curve
  by (intro conjI)

end
